theory Spec2Isabelle
  imports Complex_Main "HOL-Library.Word"
begin

unbundle bit_operations_syntax

section \<open>The Maestro USB protocol layer (maestro/usc)\<close>

text \<open>
  Python integers are unbounded and are modelled by \<open>int\<close>; \<open>>>\<close>, \<open><<\<close>, \<open>&\<close> and
  \<open>|\<close> on them are \<open>drop_bit\<close>, \<open>push_bit\<close>, \<open>AND\<close> and \<open>OR\<close> on \<open>int\<close>, and \<open>%\<close> is
  \<open>mod\<close> (both round towards minus infinity).  The true division \<open>/\<close> of Python 3 is
  modelled by the exact quotient in \<open>real\<close>, and \<open>int(...)\<close> of such a quotient by
  truncation towards zero.  Every exception of the source is a value of \<open>error\<close>.
\<close>

subsection \<open>Errors\<close>

datatype error =
    OutOfRange                \<comment> \<open>\<open>requireArgumentRange\<close>: 'The ... must be between ...'\<close>
  | InvalidParameterId        \<comment> \<open>\<open>getRange\<close>: 'Invalid parameterId ...'\<close>
  | InvalidChannel            \<comment> \<open>\<open>_channelToPort\<close>: 'Invalid channel number ...'\<close>
  | ScriptTooLong             \<comment> \<open>\<open>loadProgram\<close>: 'Script is too long for device ...'\<close>
  | UnknownProductID          \<comment> \<open>\<open>__init__\<close>: 'Unknown product ID ...'\<close>
  | ShortRead                 \<comment> \<open>\<open>_getVariableMiniMaestro\<close>: 'Short read: ...'\<close>
  | StructError               \<comment> \<open>\<open>struct.error\<close>: buffer of the wrong size\<close>
  | KeyError
  | IndexError
  | ValueError
  | AttributeError
  | ZeroDivisionError

subsection \<open>protocol.py: enumerations\<close>

datatype ChannelMode = Servo | ServoMultiplied | Output | Input

fun ChannelMode_value :: "ChannelMode \<Rightarrow> int" where
  "ChannelMode_value Servo = 0"
| "ChannelMode_value ServoMultiplied = 1"
| "ChannelMode_value Output = 2"
| "ChannelMode_value Input = 3"

definition ChannelMode_of :: "int \<Rightarrow> ChannelMode" where
  \<comment> \<open>the member of the enumeration a two-bit mode code compares equal to\<close>
  "ChannelMode_of v =
     (if v = 0 then Servo else if v = 1 then ServoMultiplied else if v = 2 then Output else Input)"

datatype HomeMode = Off | Ignore | Goto

abbreviation (input) REQUEST_GET_PARAMETER :: int where "REQUEST_GET_PARAMETER \<equiv> 0x81"
abbreviation (input) REQUEST_SET_PARAMETER :: int where "REQUEST_SET_PARAMETER \<equiv> 0x82"
abbreviation (input) REQUEST_GET_VARIABLES :: int where "REQUEST_GET_VARIABLES \<equiv> 0x83"
abbreviation (input) REQUEST_REINITIALIZE :: int where "REQUEST_REINITIALIZE \<equiv> 0x90"
abbreviation (input) REQUEST_ERASE_SCRIPT :: int where "REQUEST_ERASE_SCRIPT \<equiv> 0xA0"
abbreviation (input) REQUEST_WRITE_SCRIPT :: int where "REQUEST_WRITE_SCRIPT \<equiv> 0xA1"
abbreviation (input) REQUEST_SET_SCRIPT_DONE :: int where "REQUEST_SET_SCRIPT_DONE \<equiv> 0xA2"

abbreviation (input) PARAMETER_INITIALIZED :: int where "PARAMETER_INITIALIZED \<equiv> 0"
abbreviation (input) PARAMETER_SERVOS_AVAILABLE :: int where "PARAMETER_SERVOS_AVAILABLE \<equiv> 1"
abbreviation (input) PARAMETER_SERVO_PERIOD :: int where "PARAMETER_SERVO_PERIOD \<equiv> 2"
abbreviation (input) PARAMETER_SERIAL_MODE :: int where "PARAMETER_SERIAL_MODE \<equiv> 3"
abbreviation (input) PARAMETER_SERIAL_FIXED_BAUD_RATE :: int where "PARAMETER_SERIAL_FIXED_BAUD_RATE \<equiv> 4"
abbreviation (input) PARAMETER_SERIAL_TIMEOUT :: int where "PARAMETER_SERIAL_TIMEOUT \<equiv> 6"
abbreviation (input) PARAMETER_SERIAL_ENABLE_CRC :: int where "PARAMETER_SERIAL_ENABLE_CRC \<equiv> 8"
abbreviation (input) PARAMETER_SERIAL_NEVER_SUSPEND :: int where "PARAMETER_SERIAL_NEVER_SUSPEND \<equiv> 9"
abbreviation (input) PARAMETER_SERIAL_DEVICE_NUMBER :: int where "PARAMETER_SERIAL_DEVICE_NUMBER \<equiv> 10"
abbreviation (input) PARAMETER_SERIAL_BAUD_DETECT_TYPE :: int where "PARAMETER_SERIAL_BAUD_DETECT_TYPE \<equiv> 11"
abbreviation (input) PARAMETER_IO_MASK_C :: int where "PARAMETER_IO_MASK_C \<equiv> 16"
abbreviation (input) PARAMETER_OUTPUT_MASK_C :: int where "PARAMETER_OUTPUT_MASK_C \<equiv> 17"
abbreviation (input) PARAMETER_CHANNEL_MODES_0_3 :: int where "PARAMETER_CHANNEL_MODES_0_3 \<equiv> 12"
abbreviation (input) PARAMETER_CHANNEL_MODES_4_7 :: int where "PARAMETER_CHANNEL_MODES_4_7 \<equiv> 13"
abbreviation (input) PARAMETER_CHANNEL_MODES_8_11 :: int where "PARAMETER_CHANNEL_MODES_8_11 \<equiv> 14"
abbreviation (input) PARAMETER_CHANNEL_MODES_12_15 :: int where "PARAMETER_CHANNEL_MODES_12_15 \<equiv> 15"
abbreviation (input) PARAMETER_CHANNEL_MODES_16_19 :: int where "PARAMETER_CHANNEL_MODES_16_19 \<equiv> 16"
abbreviation (input) PARAMETER_CHANNEL_MODES_20_23 :: int where "PARAMETER_CHANNEL_MODES_20_23 \<equiv> 17"
abbreviation (input) PARAMETER_MINI_MAESTRO_SERVO_PERIOD_L :: int where "PARAMETER_MINI_MAESTRO_SERVO_PERIOD_L \<equiv> 18"
abbreviation (input) PARAMETER_MINI_MAESTRO_SERVO_PERIOD_HU :: int where "PARAMETER_MINI_MAESTRO_SERVO_PERIOD_HU \<equiv> 19"
abbreviation (input) PARAMETER_ENABLE_PULLUPS :: int where "PARAMETER_ENABLE_PULLUPS \<equiv> 21"
abbreviation (input) PARAMETER_SCRIPT_CRC :: int where "PARAMETER_SCRIPT_CRC \<equiv> 22"
abbreviation (input) PARAMETER_SCRIPT_DONE :: int where "PARAMETER_SCRIPT_DONE \<equiv> 24"
abbreviation (input) PARAMETER_SERIAL_MINI_SSC_OFFSET :: int where "PARAMETER_SERIAL_MINI_SSC_OFFSET \<equiv> 25"
abbreviation (input) PARAMETER_SERVO_MULTIPLIER :: int where "PARAMETER_SERVO_MULTIPLIER \<equiv> 26"
abbreviation (input) PARAMETER_SERVO0_HOME :: int where "PARAMETER_SERVO0_HOME \<equiv> 30"
abbreviation (input) PARAMETER_SERVO0_MIN :: int where "PARAMETER_SERVO0_MIN \<equiv> 32"
abbreviation (input) PARAMETER_SERVO0_MAX :: int where "PARAMETER_SERVO0_MAX \<equiv> 33"
abbreviation (input) PARAMETER_SERVO0_NEUTRAL :: int where "PARAMETER_SERVO0_NEUTRAL \<equiv> 34"
abbreviation (input) PARAMETER_SERVO0_RANGE :: int where "PARAMETER_SERVO0_RANGE \<equiv> 36"
abbreviation (input) PARAMETER_SERVO0_SPEED :: int where "PARAMETER_SERVO0_SPEED \<equiv> 37"
abbreviation (input) PARAMETER_SERVO0_ACCELERATION :: int where "PARAMETER_SERVO0_ACCELERATION \<equiv> 38"

subsection \<open>main.py: parameter ranges\<close>

record Range =
  bytes :: int
  minimumValue :: int
  maximumValue :: int

definition mkRange :: "int \<Rightarrow> int \<Rightarrow> int \<Rightarrow> Range" where
  "mkRange numBytes lo hi = \<lparr>bytes = numBytes, minimumValue = lo, maximumValue = hi\<rparr>"

definition Range_u16 :: Range where "Range_u16 = mkRange 2 0 0xFFFF"
definition Range_u8 :: Range where "Range_u8 = mkRange 1 0 0xFF"
definition Range_u7 :: Range where "Range_u7 = mkRange 1 0 0x7F"
definition Range_boolean :: Range where "Range_boolean = mkRange 1 0 1"

definition servoParameter :: "int \<Rightarrow> int" where
  \<comment> \<open>the fold of \<open>getRange\<close>'s last branch onto the parameters of servo 0\<close>
  "servoParameter parameterId =
     ((parameterId - PARAMETER_SERVO0_HOME) mod 9) + PARAMETER_SERVO0_HOME"

definition getRange :: "int \<Rightarrow> error + Range" where
  "getRange parameterId =
     (if parameterId \<in> set [PARAMETER_INITIALIZED, PARAMETER_SERVOS_AVAILABLE,
           PARAMETER_SERVO_PERIOD, PARAMETER_MINI_MAESTRO_SERVO_PERIOD_L,
           PARAMETER_SERVO_MULTIPLIER, PARAMETER_CHANNEL_MODES_0_3,
           PARAMETER_CHANNEL_MODES_4_7, PARAMETER_CHANNEL_MODES_8_11,
           PARAMETER_CHANNEL_MODES_12_15, PARAMETER_CHANNEL_MODES_16_19,
           PARAMETER_CHANNEL_MODES_20_23, PARAMETER_ENABLE_PULLUPS]
      then Inr Range_u8
      else if parameterId \<in> set [PARAMETER_MINI_MAESTRO_SERVO_PERIOD_HU,
           PARAMETER_SERIAL_TIMEOUT, PARAMETER_SERIAL_FIXED_BAUD_RATE, PARAMETER_SCRIPT_CRC]
      then Inr Range_u16
      else if parameterId \<in> set [PARAMETER_SERIAL_NEVER_SUSPEND,
           PARAMETER_SERIAL_ENABLE_CRC, PARAMETER_SCRIPT_DONE]
      then Inr Range_boolean
      else if parameterId = PARAMETER_SERIAL_DEVICE_NUMBER then Inr Range_u7
      else if parameterId = PARAMETER_SERIAL_MODE then Inr (mkRange 1 0 3)
      else if parameterId = PARAMETER_SERIAL_BAUD_DETECT_TYPE then Inr (mkRange 1 0 1)
      else if parameterId = PARAMETER_SERIAL_MINI_SSC_OFFSET then Inr (mkRange 1 0 254)
      else
        (if servoParameter parameterId \<in> set [PARAMETER_SERVO0_SPEED, PARAMETER_SERVO0_MAX,
             PARAMETER_SERVO0_MIN, PARAMETER_SERVO0_ACCELERATION]
         then Inr Range_u8
         else if servoParameter parameterId \<in> set [PARAMETER_SERVO0_HOME, PARAMETER_SERVO0_NEUTRAL]
         then Inr (mkRange 2 0 32440)
         else if servoParameter parameterId = PARAMETER_SERVO0_RANGE then Inr (mkRange 1 1 50)
         else Inl InvalidParameterId))"

definition listedParameters :: "int set" where
  \<comment> \<open>the identifiers \<open>getRange\<close> names in its device-wide branches\<close>
  "listedParameters = {0, 1, 2, 18, 26, 12, 13, 14, 15, 16, 17, 21, 19, 6, 4, 22, 9, 8, 24, 10, 3, 11, 25}"

definition requireArgumentRange :: "int \<Rightarrow> int \<Rightarrow> int \<Rightarrow> error + unit" where
  "requireArgumentRange argumentValue minimum maximum =
     (if argumentValue < minimum \<or> argumentValue > maximum then Inl OutOfRange else Inr ())"

subsection \<open>main.py: numeric transforms\<close>

definition py_int :: "real \<Rightarrow> int" where
  \<comment> \<open>Python's \<open>int(x)\<close> on a float: truncation towards zero\<close>
  "py_int x = (if 0 \<le> x then \<lfloor>x\<rfloor> else \<lceil>x\<rceil>)"

abbreviation (input) INSTRUCTION_FREQUENCY :: int where "INSTRUCTION_FREQUENCY \<equiv> 12000000"

definition exponentialSpeedToNormalSpeed :: "int \<Rightarrow> int" where
  "exponentialSpeedToNormalSpeed exponentialSpeed =
     (let mantissa = drop_bit 3 exponentialSpeed;
          exponent = exponentialSpeed AND 7
      in mantissa * push_bit (nat exponent) 1)"

function normalSpeedLoop :: "int \<Rightarrow> int \<Rightarrow> int" where
  \<comment> \<open>the \<open>while True\<close> loop of \<open>_normalSpeedToExponentialSpeed\<close> on (mantissa, exponent)\<close>
  "normalSpeedLoop mantissa exponent =
     (if mantissa < 32 then exponent + push_bit 3 mantissa
      else if exponent = 7 then 0xFF
      else normalSpeedLoop (drop_bit 1 mantissa) (exponent + 1))"
  by pat_completeness auto
termination
  by (relation "measure (\<lambda>(mantissa, exponent). nat mantissa)")
     (auto simp: drop_bit_eq_div)

definition normalSpeedToExponentialSpeed :: "int \<Rightarrow> int" where
  "normalSpeedToExponentialSpeed normalSpeed = normalSpeedLoop normalSpeed 0"

definition convertSpbrgToBps :: "int \<Rightarrow> error + int" where
  "convertSpbrgToBps spbrg =
     (if spbrg = 0 then Inr 0
      else if spbrg + 1 = 0 then Inl ZeroDivisionError
      else Inr (py_int ((real_of_int INSTRUCTION_FREQUENCY + real_of_int (spbrg + 1) / 2)
                        / real_of_int (spbrg + 1))))"

definition convertBpsToSpbrg :: "int \<Rightarrow> int" where
  "convertBpsToSpbrg bps =
     (if bps = 0 then 0
      else py_int ((real_of_int INSTRUCTION_FREQUENCY - real_of_int bps / 2) / real_of_int bps))"

definition spec_convertBpsToSpbrg :: "int \<Rightarrow> int" where
  \<comment> \<open>the transform as the specification words it, with rounding to the nearest integer\<close>
  "spec_convertBpsToSpbrg bps =
     (if bps = 0 then 0
      else round ((real_of_int 12000000 - real_of_int bps / 2) / real_of_int bps))"

definition channelToPort :: "int \<Rightarrow> error + int" where
  "channelToPort channel =
     (if channel \<le> 3 then Inr channel
      else if channel < 6 then Inr (channel + 2)
      else Inl InvalidChannel)"

definition specifyServo :: "int \<Rightarrow> int \<Rightarrow> int" where
  "specifyServo p servo = p + servo * 9"

subsection \<open>The transport and the session object\<close>

text \<open>
  The USB handle \<open>self.dev\<close> is modelled by the list of control transfers issued so far,
  oldest first; \<open>ctrl_transfer\<close> appends to it.  The transport itself is assumed not to
  raise.  The bytes a device returns for an IN transfer are given by the field \<open>reply\<close> of
  the session, from the transfers already issued and the request; they are bytes, hence
  \<open>8 word\<close>.  The settle delays (\<open>time.sleep\<close>) are not modelled.
\<close>

datatype payload = NoData | Data "int list" | WLength int

record transfer =
  bmRequestType :: int
  bRequest :: int
  wValue :: int
  wIndex :: int
  data_or_wLength :: payload

type_synonym 'a io = "transfer list \<Rightarrow> (error + 'a) \<times> transfer list"

definition ctrl_transfer :: "int \<Rightarrow> int \<Rightarrow> int \<Rightarrow> int \<Rightarrow> payload \<Rightarrow> transfer" where
  "ctrl_transfer t r v i d =
     \<lparr>bmRequestType = t, bRequest = r, wValue = v, wIndex = i, data_or_wLength = d\<rparr>"

record Usc =
  servoCount :: nat
  microMaestro :: bool
  subroutineOffsetBlocks :: int
  maxScriptLength :: nat
  reply :: "transfer list \<Rightarrow> transfer \<Rightarrow> 8 word list"

definition Usc_init :: "int \<Rightarrow> (transfer list \<Rightarrow> transfer \<Rightarrow> 8 word list) \<Rightarrow> error + Usc" where
  \<comment> \<open>\<open>Usc.__init__\<close>, from the product identifier of the device\<close>
  "Usc_init productID rep =
     (case (if productID = 0x0089 then Inr 6
            else if productID = 0x008a then Inr 12
            else if productID = 0x008b then Inr 18
            else if productID = 0x008c then Inr 24
            else Inl UnknownProductID) of
        Inl e \<Rightarrow> Inl e
      | Inr n \<Rightarrow> Inr \<lparr>servoCount = n, microMaestro = (n = 6),
                       subroutineOffsetBlocks = (if \<not> (n = 6) then 512 else 64),
                       maxScriptLength = (if \<not> (n = 6) then 8192 else 1024),
                       reply = rep\<rparr>)"

subsection \<open>Python containers\<close>

definition bytearray_get :: "int list \<Rightarrow> int \<Rightarrow> error + int" where
  \<comment> \<open>\<open>a[i]\<close>: a negative index counts from the end\<close>
  "bytearray_get a i =
     (let n = int (length a); j = (if i < 0 then i + n else i)
      in if j < 0 \<or> n \<le> j then Inl IndexError else Inr (a ! nat j))"

definition bytearray_set :: "int list \<Rightarrow> int \<Rightarrow> int \<Rightarrow> error + int list" where
  \<comment> \<open>\<open>a[i] = v\<close> on a bytearray: the index is checked, then that \<open>v\<close> is a byte\<close>
  "bytearray_set a i v =
     (let n = int (length a); j = (if i < 0 then i + n else i)
      in if j < 0 \<or> n \<le> j then Inl IndexError
         else if v < 0 \<or> 255 < v then Inl ValueError
         else Inr (a[nat j := v]))"

definition py_slice :: "'a list \<Rightarrow> nat \<Rightarrow> nat \<Rightarrow> 'a list" where
  \<comment> \<open>\<open>xs[a:b]\<close> for non-negative bounds: clipped to the list, never an error\<close>
  "py_slice xs a b = take (b - a) (drop a xs)"

subsection \<open>main.py: raw parameters\<close>

definition setRawParameterNoChecks :: "int \<Rightarrow> int \<Rightarrow> int \<Rightarrow> transfer list \<Rightarrow> transfer list" where
  "setRawParameterNoChecks parameter v numBytes dev =
     (let index = push_bit 8 numBytes + parameter
      in dev @ [ctrl_transfer 0x40 REQUEST_SET_PARAMETER v index NoData])"

definition setRawParameter :: "int \<Rightarrow> int \<Rightarrow> unit io" where
  "setRawParameter parameter v dev =
     (case getRange parameter of
        Inl e \<Rightarrow> (Inl e, dev)
      | Inr parameterRange \<Rightarrow>
          (case requireArgumentRange v (minimumValue parameterRange) (maximumValue parameterRange) of
             Inl e \<Rightarrow> (Inl e, dev)
           | Inr _ \<Rightarrow> (Inr (), setRawParameterNoChecks parameter v (bytes parameterRange) dev)))"

fun setRawParameters :: "(int \<times> int) list \<Rightarrow> unit io" where
  \<comment> \<open>consecutive calls \<open>self._setRawParameter(p, v)\<close>; the first exception ends the sequence\<close>
  "setRawParameters [] dev = (Inr (), dev)"
| "setRawParameters ((parameter, v) # rest) dev =
     (case setRawParameter parameter v dev of
        (Inl e, dev') \<Rightarrow> (Inl e, dev')
      | (Inr _, dev') \<Rightarrow> setRawParameters rest dev')"

subsection \<open>protocol.py: status records\<close>

datatype fmt = Fmt_B | Fmt_H | Fmt_h

fun fmt_size :: "fmt \<Rightarrow> nat" where
  "fmt_size Fmt_B = 1"
| "fmt_size Fmt_H = 2"
| "fmt_size Fmt_h = 2"

definition calcsize :: "fmt list \<Rightarrow> nat" where
  "calcsize fs = sum_list (map fmt_size fs)"

definition le16 :: "8 word list \<Rightarrow> int" where
  "le16 bs = uint (bs ! 0) + 256 * uint (bs ! 1)"

fun unpack_item :: "fmt \<Rightarrow> 8 word list \<Rightarrow> int" where
  \<comment> \<open>one item of a little-endian (\<open><\<close>) format, read at the head of the buffer\<close>
  "unpack_item Fmt_B bs = uint (bs ! 0)"
| "unpack_item Fmt_H bs = le16 bs"
| "unpack_item Fmt_h bs = (if le16 bs < 32768 then le16 bs else le16 bs - 65536)"

fun unpack_from :: "fmt list \<Rightarrow> 8 word list \<Rightarrow> int list" where
  "unpack_from [] bs = []"
| "unpack_from (f # fs) bs = unpack_item f bs # unpack_from fs (drop (fmt_size f) bs)"

definition struct_unpack :: "fmt list \<Rightarrow> 8 word list \<Rightarrow> error + int list" where
  \<comment> \<open>\<open>struct.Struct(fmt).unpack(packed)\<close>: the buffer must have exactly the size of the format\<close>
  "struct_unpack fs packed =
     (if length packed \<noteq> calcsize fs then Inl StructError else Inr (unpack_from fs packed))"

definition MiniMaestroVariables_struct :: "fmt list" where
  \<comment> \<open>\<open>'<BBHHBB'\<close>\<close>
  "MiniMaestroVariables_struct = [Fmt_B, Fmt_B, Fmt_H, Fmt_H, Fmt_B, Fmt_B]"

record MiniMaestroVariables =
  stackPointer :: int
  callStackPointer :: int
  errors :: int
  programCounter :: int
  scriptDone :: int
  performanceFlags :: int

definition MiniMaestroVariables_init :: "8 word list \<Rightarrow> error + MiniMaestroVariables" where
  "MiniMaestroVariables_init packed =
     (case struct_unpack MiniMaestroVariables_struct packed of
        Inl e \<Rightarrow> Inl e
      | Inr unpacked \<Rightarrow>
          Inr \<lparr>stackPointer = unpacked ! 0, callStackPointer = unpacked ! 1,
               errors = unpacked ! 2, programCounter = unpacked ! 3,
               scriptDone = unpacked ! 4, performanceFlags = unpacked ! 5\<rparr>)"

definition MicroMaestroVariables_struct :: "fmt list" where
  \<comment> \<open>\<open>'<BBH3h32h10HBB'\<close>\<close>
  "MicroMaestroVariables_struct =
     [Fmt_B, Fmt_B, Fmt_H] @ replicate 3 Fmt_h @ replicate 32 Fmt_h @ replicate 10 Fmt_H
       @ [Fmt_B, Fmt_B]"

definition spec_MicroMaestroVariables_struct :: "fmt list" where
  \<comment> \<open>the layout as the specification words it, with three reserved bytes after the error flags\<close>
  "spec_MicroMaestroVariables_struct =
     [Fmt_B, Fmt_B, Fmt_H] @ replicate 3 Fmt_B @ replicate 32 Fmt_h @ replicate 10 Fmt_H
       @ [Fmt_B, Fmt_B]"

record MicroMaestroVariables =
  stackPointer :: int
  callStackPointer :: int
  errors :: int
  buffer :: "int list"
  stack :: "int list"
  callStack :: "int list"
  scriptDone :: int
  buffer2 :: int

definition MicroMaestroVariables_init :: "8 word list \<Rightarrow> error + MicroMaestroVariables" where
  "MicroMaestroVariables_init packed =
     (case struct_unpack MicroMaestroVariables_struct packed of
        Inl e \<Rightarrow> Inl e
      | Inr unpacked \<Rightarrow>
          Inr \<lparr>stackPointer = unpacked ! 0, callStackPointer = unpacked ! 1,
               errors = unpacked ! 2, buffer = py_slice unpacked 3 6,
               stack = py_slice unpacked 6 38, callStack = py_slice unpacked 38 48,
               scriptDone = unpacked ! 48, buffer2 = unpacked ! 49\<rparr>)"

definition ServoStatus_struct :: "fmt list" where
  \<comment> \<open>\<open>'<HHHB'\<close>\<close>
  "ServoStatus_struct = [Fmt_H, Fmt_H, Fmt_H, Fmt_B]"

record ServoStatus =
  position :: int
  target :: int
  speed :: int
  acceleration :: int

definition ServoStatus_init :: "8 word list \<Rightarrow> error + ServoStatus" where
  "ServoStatus_init packed =
     (case struct_unpack ServoStatus_struct packed of
        Inl e \<Rightarrow> Inl e
      | Inr unpacked \<Rightarrow>
          Inr \<lparr>position = unpacked ! 0, target = unpacked ! 1,
               speed = unpacked ! 2, acceleration = unpacked ! 3\<rparr>)"

subsection \<open>main.py: reading the status\<close>

fun servoStatuses :: "8 word list \<Rightarrow> nat list \<Rightarrow> error + ServoStatus list" where
  \<comment> \<open>the loop \<open>for i in range(self.servoCount): servos.append(ServoStatus(...))\<close>\<close>
  "servoStatuses servo_packed [] = Inr []"
| "servoStatuses servo_packed (i # rest) =
     (case ServoStatus_init
             (py_slice servo_packed (i * calcsize ServoStatus_struct)
                                    ((i + 1) * calcsize ServoStatus_struct)) of
        Inl e \<Rightarrow> Inl e
      | Inr s \<Rightarrow>
          (case servoStatuses servo_packed rest of
             Inl e \<Rightarrow> Inl e
           | Inr servos \<Rightarrow> Inr (s # servos)))"

definition getVariableMicroMaestro :: "Usc \<Rightarrow> (MicroMaestroVariables \<times> ServoStatus list) io" where
  "getVariableMicroMaestro usc dev =
     (let request = ctrl_transfer 0xC0 REQUEST_GET_VARIABLES 0 0
                      (WLength (int (calcsize MicroMaestroVariables_struct
                                      + servoCount usc * calcsize ServoStatus_struct)));
          packed = reply usc dev request;
          dev' = dev @ [request];
          var_packed = py_slice packed 0 (calcsize MicroMaestroVariables_struct);
          servo_packed = drop (calcsize MicroMaestroVariables_struct) packed
      in case MicroMaestroVariables_init var_packed of
           Inl e \<Rightarrow> (Inl e, dev')
         | Inr variables \<Rightarrow>
             (case servoStatuses servo_packed [0..<servoCount usc] of
                Inl e \<Rightarrow> (Inl e, dev')
              | Inr servos \<Rightarrow> (Inr (variables, servos), dev')))"

definition getVariableMiniMaestro_variables :: "Usc \<Rightarrow> MiniMaestroVariables io" where
  \<comment> \<open>the branch \<open>out == 'variables'\<close> of \<open>_getVariableMiniMaestro\<close>\<close>
  "getVariableMiniMaestro_variables usc dev =
     (let request = ctrl_transfer 0xC0 REQUEST_GET_VARIABLES 0 0
                      (WLength (int (calcsize MiniMaestroVariables_struct)));
          packed = reply usc dev request;
          dev' = dev @ [request]
      in if length packed \<noteq> calcsize MiniMaestroVariables_struct then (Inl ShortRead, dev')
         else (case MiniMaestroVariables_init packed of
                 Inl e \<Rightarrow> (Inl e, dev')
               | Inr variables \<Rightarrow> (Inr variables, dev')))"

subsection \<open>main.py: uploading a script\<close>

text \<open>
  The compiled program comes from the package \<open>maestro.bytecode\<close>, which is not part of the
  sources at hand: \<open>getByteList()\<close>, the two dictionaries and \<open>getCRC()\<close> are the fields of a
  record, a dictionary being an association list in insertion order, and the values of
  \<open>Opcode.QUIT\<close> and \<open>Opcode.CALL\<close> are parameters \<open>QUIT\<close> and \<open>CALL\<close> of the functions
  that use them.
\<close>

record BytecodeProgram =
  byteList :: "int list"
  subroutineAddresses :: "(string \<times> int) list"
  subroutineCommands :: "(string \<times> int) list"
  crc :: int

definition setScriptDone :: "int \<Rightarrow> transfer list \<Rightarrow> transfer list" where
  "setScriptDone v dev = dev @ [ctrl_transfer 0x40 REQUEST_SET_SCRIPT_DONE v 0 NoData]"

definition eraseScript :: "transfer list \<Rightarrow> transfer list" where
  "eraseScript dev = dev @ [ctrl_transfer 0x40 REQUEST_ERASE_SCRIPT 0 0 NoData]"

definition scriptBlock :: "int list \<Rightarrow> nat \<Rightarrow> error + int list" where
  \<comment> \<open>the 16 bytes of one block of \<open>writeScript\<close>; a value that is no byte raises\<close>
  "scriptBlock bytecode block =
     (let block_bytes =
            map (\<lambda>j. if block * 16 + j < length bytecode then bytecode ! (block * 16 + j) else 0xFF)
                [0..<16]
      in if \<forall>b \<in> set block_bytes. 0 \<le> b \<and> b \<le> 255 then Inr block_bytes else Inl ValueError)"

fun writeBlocks :: "int list \<Rightarrow> nat list \<Rightarrow> unit io" where
  "writeBlocks bytecode [] dev = (Inr (), dev)"
| "writeBlocks bytecode (block # rest) dev =
     (case scriptBlock bytecode block of
        Inl e \<Rightarrow> (Inl e, dev)
      | Inr block_bytes \<Rightarrow>
          writeBlocks bytecode rest
            (dev @ [ctrl_transfer 0x40 REQUEST_WRITE_SCRIPT 0 (int block) (Data block_bytes)]))"

definition writeScript :: "int list \<Rightarrow> unit io" where
  "writeScript bytecode dev = writeBlocks bytecode [0..<(length bytecode + 15) div 16] dev"




fun subroutineData :: "int \<Rightarrow> (string \<times> int) list \<Rightarrow> (string \<times> int) list \<Rightarrow> int list
                         \<Rightarrow> error + int list" where
  \<comment> \<open>the first loop of \<open>setSubroutines\<close>, over \<open>subroutineAddresses.items()\<close>\<close>
  "subroutineData CALL [] commands table = Inr table"
| "subroutineData CALL ((name, v) # rest) commands table =
     (case map_of commands name of
        None \<Rightarrow> Inl KeyError
      | Some bytecode \<Rightarrow>
          if bytecode = CALL then subroutineData CALL rest commands table
          else (case bytearray_set table (2 * (bytecode - 128)) (v mod 256) of
                  Inl e \<Rightarrow> Inl e
                | Inr table1 \<Rightarrow>
                    (case bytearray_set table1 (2 * (bytecode - 128) + 1) (drop_bit 8 v) of
                       Inl e \<Rightarrow> Inl e
                     | Inr table2 \<Rightarrow> subroutineData CALL rest commands table2)))"

definition subroutineTable :: "int \<Rightarrow> (string \<times> int) list \<Rightarrow> (string \<times> int) list
                                 \<Rightarrow> error + int list" where
  "subroutineTable CALL addresses commands =
     subroutineData CALL addresses commands (replicate 256 0xFF)"



definition setSubroutines :: "Usc \<Rightarrow> int \<Rightarrow> (string \<times> int) list \<Rightarrow> (string \<times> int) list \<Rightarrow> unit io" where
  "setSubroutines usc CALL addresses commands dev =
     (case subroutineTable CALL addresses commands of
        Inl e \<Rightarrow> (Inl e, dev)
      | Inr table \<Rightarrow>
          (Inr (),
           dev @ map (\<lambda>block. ctrl_transfer 0x40 REQUEST_WRITE_SCRIPT 0
                                 (int block + subroutineOffsetBlocks usc)
                                 (Data (map (\<lambda>j. table ! (block * 16 + j)) [0..<16])))
                     [0..<16]))"

definition reinitialize :: "Usc \<Rightarrow> unit io" where
  \<comment> \<open>\<open>_reinitialize\<close>, without its delay\<close>
  "reinitialize usc dev =
     (let dev' = dev @ [ctrl_transfer 0x40 REQUEST_REINITIALIZE 0 0 NoData]
      in if \<not> microMaestro usc
         then (case getVariableMiniMaestro_variables usc dev' of
                 (Inl e, dev'') \<Rightarrow> (Inl e, dev'')
               | (Inr _, dev'') \<Rightarrow> (Inr (), dev''))
         else (Inr (), dev'))"

definition loadProgram :: "Usc \<Rightarrow> int \<Rightarrow> int \<Rightarrow> BytecodeProgram option \<Rightarrow> bool \<Rightarrow> unit io" where
  "loadProgram usc QUIT CALL program CRC dev =
     (let dev1 = setScriptDone 1 dev
      in case program of
           None \<Rightarrow> (Inl AttributeError, dev1)
         | Some p \<Rightarrow>
             if length (byteList p) > maxScriptLength usc then (Inl ScriptTooLong, dev1)
             else
               (let byteList' = (if length (byteList p) < maxScriptLength usc
                                 then byteList p @ [QUIT] else byteList p);
                    dev2 = eraseScript dev1
                in case setSubroutines usc CALL (subroutineAddresses p) (subroutineCommands p) dev2 of
                     (Inl e, dev3) \<Rightarrow> (Inl e, dev3)
                   | (Inr _, dev3) \<Rightarrow>
                       (case writeScript byteList' dev3 of
                          (Inl e, dev4) \<Rightarrow> (Inl e, dev4)
                        | (Inr _, dev4) \<Rightarrow>
                            (case (if CRC then setRawParameter PARAMETER_SCRIPT_CRC (crc p) dev4
                                   else (Inr (), dev4)) of
                               (Inl e, dev5) \<Rightarrow> (Inl e, dev5)
                             | (Inr _, dev5) \<Rightarrow> reinitialize usc dev5))))"

subsection \<open>settings.py\<close>

record ChannelSetting =
  name :: string
  mode :: ChannelMode
  homeMode :: HomeMode
  home :: int
  minimum :: int
  maximum :: int
  neutral :: int
  range' :: int
  speed :: int
  acceleration :: int

definition default_ChannelSetting :: ChannelSetting where
  \<comment> \<open>\<open>ChannelSetting()\<close>\<close>
  "default_ChannelSetting =
     \<lparr>name = [], mode = Servo, homeMode = Off, home = 6000, minimum = 3968, maximum = 8000,
      neutral = 6000, range' = 1905, speed = 0, acceleration = 0\<rparr>"

record UscSettings =
  servosAvailable :: int
  servoPeriod :: int
  miniMaestroServoPeriod :: int
  servoMultiplier :: int
  serialMode :: int
  fixedBaudRate :: int
  enableCrc :: bool
  neverSuspend :: bool
  serialDeviceNumber :: int
  miniSscOffset :: int
  serialTimeout :: int
  scriptDone :: bool
  channelSettings :: "ChannelSetting list"
  enablePullups :: bool
  scriptInconsistent :: bool
  script :: "string option"
  bytecodeProgram :: "BytecodeProgram option"

definition default_UscSettings :: UscSettings where
  \<comment> \<open>\<open>UscSettings()\<close>; the serial mode is \<open>SERIAL_MODE_UART_DETECT_BAUD_RATE\<close>\<close>
  "default_UscSettings =
     \<lparr>servosAvailable = 6, servoPeriod = 156, miniMaestroServoPeriod = 80000,
      servoMultiplier = 1, serialMode = 2, fixedBaudRate = 9600, enableCrc = False,
      neverSuspend = False, serialDeviceNumber = 12, miniSscOffset = 0, serialTimeout = 0,
      scriptDone = True, channelSettings = [], enablePullups = True,
      scriptInconsistent = False, script = None, bytecodeProgram = None\<rparr>"

subsection \<open>main.py: writing the settings\<close>

definition deviceParameters :: "Usc \<Rightarrow> UscSettings \<Rightarrow> (int \<times> int) list" where
  \<comment> \<open>the device-wide writes of \<open>setUscSettings\<close> (lines 377 to 406), in their order\<close>
  "deviceParameters usc settings =
     [(PARAMETER_SERIAL_MODE, serialMode settings),
      (PARAMETER_SERIAL_FIXED_BAUD_RATE, convertBpsToSpbrg (fixedBaudRate settings)),
      (PARAMETER_SERIAL_ENABLE_CRC, of_bool (enableCrc settings)),
      (PARAMETER_SERIAL_NEVER_SUSPEND, of_bool (neverSuspend settings)),
      (PARAMETER_SERIAL_DEVICE_NUMBER, serialDeviceNumber settings),
      (PARAMETER_SERIAL_MINI_SSC_OFFSET, miniSscOffset settings),
      (PARAMETER_SERIAL_TIMEOUT, serialTimeout settings),
      (PARAMETER_SCRIPT_DONE, of_bool (scriptDone settings))]
     @ (if microMaestro usc
        then [(PARAMETER_SERVOS_AVAILABLE, servosAvailable settings),
              (PARAMETER_SERVO_PERIOD, servoPeriod settings)]
        else [(PARAMETER_MINI_MAESTRO_SERVO_PERIOD_L, miniMaestroServoPeriod settings AND 0xFF),
              (PARAMETER_MINI_MAESTRO_SERVO_PERIOD_HU, drop_bit 8 (miniMaestroServoPeriod settings)),
              (PARAMETER_SERVO_MULTIPLIER,
                 (if servoMultiplier settings < 1 then 0
                  else if servoMultiplier settings > 256 then 255
                  else servoMultiplier settings - 1))])
     @ (if servoCount usc > 18
        then [(PARAMETER_ENABLE_PULLUPS, of_bool (enablePullups settings))] else [])"

record channelModeState =
  ioMask :: int
  outputMask :: int
  channelModeBytes :: "int list"

definition setChannelMode :: "Usc \<Rightarrow> nat \<Rightarrow> ChannelSetting \<Rightarrow> channelModeState
                                \<Rightarrow> error + channelModeState" where
  \<comment> \<open>lines 415 to 422: the mode of channel \<open>i\<close> goes into the masks or the mode bytes\<close>
  "setChannelMode usc i setting st =
     (if microMaestro usc then
        (case (if mode setting = Input \<or> mode setting = Output
               then (case channelToPort (int i) of
                       Inl e \<Rightarrow> Inl e
                     | Inr port \<Rightarrow> Inr (st\<lparr>ioMask := ioMask st OR push_bit (nat port) 1\<rparr>))
               else Inr st) of
           Inl e \<Rightarrow> Inl e
         | Inr st1 \<Rightarrow>
             (if mode setting = Output
              then (case channelToPort (int i) of
                      Inl e \<Rightarrow> Inl e
                    | Inr port \<Rightarrow> Inr (st1\<lparr>outputMask := outputMask st1 OR push_bit (nat port) 1\<rparr>))
              else Inr st1))
      else
        (case bytearray_get (channelModeBytes st) (drop_bit 2 (int i)) of
           Inl e \<Rightarrow> Inl e
         | Inr old \<Rightarrow>
             (case bytearray_set (channelModeBytes st) (drop_bit 2 (int i))
                     (old OR push_bit (nat (push_bit 1 (int i AND 3))) (ChannelMode_value (mode setting))) of
                Inl e \<Rightarrow> Inl e
              | Inr bs \<Rightarrow> Inr (st\<lparr>channelModeBytes := bs\<rparr>))))"

definition correctedHomeMode :: "ChannelSetting \<Rightarrow> HomeMode" where
  \<comment> \<open>lines 424 to 427\<close>
  "correctedHomeMode setting = (if mode setting = Input then Ignore else homeMode setting)"

definition encodeHome :: "ChannelSetting \<Rightarrow> int" where
  \<comment> \<open>lines 429 to 434: the raw value written to the home parameter\<close>
  "encodeHome setting =
     (if correctedHomeMode setting = Off then 0
      else if correctedHomeMode setting = Ignore then 1
      else home setting)"

definition channelParameters :: "nat \<Rightarrow> ChannelSetting \<Rightarrow> (int \<times> int) list" where
  \<comment> \<open>lines 436 to 444: the seven writes of channel \<open>i\<close>, in their order\<close>
  "channelParameters i setting =
     [(specifyServo PARAMETER_SERVO0_HOME (int i), encodeHome setting),
      (specifyServo PARAMETER_SERVO0_MIN (int i), py_int (real_of_int (minimum setting) / 64)),
      (specifyServo PARAMETER_SERVO0_MAX (int i), py_int (real_of_int (maximum setting) / 64)),
      (specifyServo PARAMETER_SERVO0_NEUTRAL (int i), neutral setting),
      (specifyServo PARAMETER_SERVO0_RANGE (int i), py_int (real_of_int (range' setting) / 127)),
      (specifyServo PARAMETER_SERVO0_SPEED (int i), normalSpeedToExponentialSpeed (speed setting)),
      (specifyServo PARAMETER_SERVO0_ACCELERATION (int i), acceleration setting)]"

fun setChannels :: "Usc \<Rightarrow> UscSettings \<Rightarrow> nat list \<Rightarrow> channelModeState
                      \<Rightarrow> transfer list \<Rightarrow> (error + channelModeState) \<times> transfer list" where
  \<comment> \<open>the loop \<open>for i in range(self.servoCount)\<close> of \<open>setUscSettings\<close>\<close>
  "setChannels usc settings [] st dev = (Inr st, dev)"
| "setChannels usc settings (i # rest) st dev =
     (if length (channelSettings settings) \<le> i then (Inl IndexError, dev)
      else
        (let setting = channelSettings settings ! i
         in case setChannelMode usc i setting st of
              Inl e \<Rightarrow> (Inl e, dev)
            | Inr st' \<Rightarrow>
                (case setRawParameters (channelParameters i setting) dev of
                   (Inl e, dev') \<Rightarrow> (Inl e, dev')
                 | (Inr _, dev') \<Rightarrow> setChannels usc settings rest st' dev')))"

definition modeParameters :: "Usc \<Rightarrow> channelModeState \<Rightarrow> (int \<times> int) list" where
  \<comment> \<open>lines 446 to 451\<close>
  "modeParameters usc st =
     (if microMaestro usc
      then [(PARAMETER_IO_MASK_C, ioMask st), (PARAMETER_OUTPUT_MASK_C, outputMask st)]
      else map (\<lambda>i. (PARAMETER_CHANNEL_MODES_0_3 + int i, channelModeBytes st ! i)) [0..<6])"

definition setUscSettings :: "Usc \<Rightarrow> int \<Rightarrow> int \<Rightarrow> UscSettings \<Rightarrow> bool \<Rightarrow> unit io" where
  "setUscSettings usc QUIT CALL settings newScript dev =
     (case setRawParameters (deviceParameters usc settings) dev of
        (Inl e, dev1) \<Rightarrow> (Inl e, dev1)
      | (Inr _, dev1) \<Rightarrow>
          (case setChannels usc settings [0..<servoCount usc]
                  \<lparr>ioMask = 0, outputMask = 0, channelModeBytes = replicate 6 0\<rparr> dev1 of
             (Inl e, dev2) \<Rightarrow> (Inl e, dev2)
           | (Inr st, dev2) \<Rightarrow>
               (case setRawParameters (modeParameters usc st) dev2 of
                  (Inl e, dev3) \<Rightarrow> (Inl e, dev3)
                | (Inr _, dev3) \<Rightarrow>
                    if newScript then loadProgram usc QUIT CALL (bytecodeProgram settings) True dev3
                    else (Inr (), dev3))))"

subsection \<open>main.py: reading the settings\<close>

definition bind_io :: "'a io \<Rightarrow> ('a \<Rightarrow> 'b io) \<Rightarrow> 'b io" where
  \<comment> \<open>one statement after another: an exception of the first ends the function\<close>
  "bind_io m k dev = (case m dev of (Inl e, dev') \<Rightarrow> (Inl e, dev') | (Inr x, dev') \<Rightarrow> k x dev')"

definition return_io :: "'a \<Rightarrow> 'a io" where
  "return_io x dev = (Inr x, dev)"

definition lift_io :: "error + 'a \<Rightarrow> 'a io" where
  "lift_io r dev = (r, dev)"

definition getRawParameter :: "Usc \<Rightarrow> int \<Rightarrow> int io" where
  "getRawParameter usc parameter dev =
     (case getRange parameter of
        Inl e \<Rightarrow> (Inl e, dev)
      | Inr parameterRange \<Rightarrow>
          (let request = ctrl_transfer 0xC0 REQUEST_GET_PARAMETER 0 parameter
                           (WLength (bytes parameterRange));
               array = reply usc dev request;
               dev' = dev @ [request]
           in case struct_unpack (if bytes parameterRange = 1 then [Fmt_B] else [Fmt_H]) array of
                Inl e \<Rightarrow> (Inl e, dev')
              | Inr unpacked \<Rightarrow> (Inr (unpacked ! 0), dev')))"

definition decodeHome :: "int \<Rightarrow> HomeMode \<times> int" where
  \<comment> \<open>lines 527 to 535: home mode and home position from the raw home parameter\<close>
  "decodeHome raw =
     (if raw = 0 then (Off, 0)
      else if raw = 1 then (Ignore, 0)
      else (Goto, raw))"

definition getChannelMode :: "Usc \<Rightarrow> int \<Rightarrow> int \<Rightarrow> int list \<Rightarrow> nat \<Rightarrow> error + ChannelMode" where
  \<comment> \<open>lines 514 to 523\<close>
  "getChannelMode usc io_mask output_mask mode_bytes i =
     (if microMaestro usc then
        (case channelToPort (int i) of
           Inl e \<Rightarrow> Inl e
         | Inr port \<Rightarrow>
             (let bitmask = push_bit (nat port) 1
              in if io_mask AND bitmask = 0 then Inr Servo
                 else if output_mask AND bitmask = 0 then Inr Input
                 else Inr Output))
      else
        (if length mode_bytes \<le> nat (drop_bit 2 (int i)) then Inl IndexError
         else Inr (ChannelMode_of
                 (drop_bit (nat (push_bit 1 (int i AND 3))) (mode_bytes ! nat (drop_bit 2 (int i))) AND 3))))"

definition getChannelSetting :: "Usc \<Rightarrow> int \<Rightarrow> int \<Rightarrow> int list \<Rightarrow> nat \<Rightarrow> ChannelSetting io" where
  \<comment> \<open>the body of the loop \<open>for i in range(self.servoCount)\<close> of \<open>getUscSettings\<close>\<close>
  "getChannelSetting usc io_mask output_mask mode_bytes i =
     bind_io (lift_io (getChannelMode usc io_mask output_mask mode_bytes i)) (\<lambda>mode'.
     bind_io (getRawParameter usc (specifyServo PARAMETER_SERVO0_HOME (int i))) (\<lambda>home'.
     bind_io (getRawParameter usc (specifyServo PARAMETER_SERVO0_MIN (int i))) (\<lambda>minimum'.
     bind_io (getRawParameter usc (specifyServo PARAMETER_SERVO0_MAX (int i))) (\<lambda>maximum'.
     bind_io (getRawParameter usc (specifyServo PARAMETER_SERVO0_NEUTRAL (int i))) (\<lambda>neutral'.
     bind_io (getRawParameter usc (specifyServo PARAMETER_SERVO0_RANGE (int i))) (\<lambda>range''.
     bind_io (getRawParameter usc (specifyServo PARAMETER_SERVO0_SPEED (int i))) (\<lambda>speed'.
     bind_io (getRawParameter usc (specifyServo PARAMETER_SERVO0_ACCELERATION (int i))) (\<lambda>acceleration'.
     return_io (default_ChannelSetting
       \<lparr>mode := mode', homeMode := fst (decodeHome home'), home := snd (decodeHome home'),
        minimum := 64 * minimum', maximum := 64 * maximum', neutral := neutral',
        range' := 127 * range'', speed := exponentialSpeedToNormalSpeed speed',
        acceleration := acceleration'\<rparr>)))))))))"

fun getChannels :: "Usc \<Rightarrow> int \<Rightarrow> int \<Rightarrow> int list \<Rightarrow> nat list \<Rightarrow> ChannelSetting list io" where
  "getChannels usc io_mask output_mask mode_bytes [] dev = (Inr [], dev)"
| "getChannels usc io_mask output_mask mode_bytes (i # rest) dev =
     (case getChannelSetting usc io_mask output_mask mode_bytes i dev of
        (Inl e, dev') \<Rightarrow> (Inl e, dev')
      | (Inr setting, dev') \<Rightarrow>
          (case getChannels usc io_mask output_mask mode_bytes rest dev' of
             (Inl e, dev'') \<Rightarrow> (Inl e, dev'')
           | (Inr settings, dev'') \<Rightarrow> (Inr (setting # settings), dev'')))"

fun getRawParameterList :: "Usc \<Rightarrow> int list \<Rightarrow> int list io" where
  \<comment> \<open>consecutive reads, as the loop filling \<open>channelModeBytes\<close>\<close>
  "getRawParameterList usc [] dev = (Inr [], dev)"
| "getRawParameterList usc (parameter # rest) dev =
     (case getRawParameter usc parameter dev of
        (Inl e, dev') \<Rightarrow> (Inl e, dev')
      | (Inr v, dev') \<Rightarrow>
          (case getRawParameterList usc rest dev' of
             (Inl e, dev'') \<Rightarrow> (Inl e, dev'')
           | (Inr vs, dev'') \<Rightarrow> (Inr (v # vs), dev'')))"

definition getUscSettings :: "Usc \<Rightarrow> UscSettings io" where
  "getUscSettings usc =
     bind_io (getRawParameter usc PARAMETER_SERIAL_MODE) (\<lambda>serialMode'.
     bind_io (getRawParameter usc PARAMETER_SERIAL_FIXED_BAUD_RATE) (\<lambda>spbrg.
     bind_io (lift_io (convertSpbrgToBps spbrg)) (\<lambda>fixedBaudRate'.
     bind_io (getRawParameter usc PARAMETER_SERIAL_ENABLE_CRC) (\<lambda>enableCrc'.
     bind_io (getRawParameter usc PARAMETER_SERIAL_NEVER_SUSPEND) (\<lambda>neverSuspend'.
     bind_io (getRawParameter usc PARAMETER_SERIAL_DEVICE_NUMBER) (\<lambda>serialDeviceNumber'.
     bind_io (getRawParameter usc PARAMETER_SERIAL_MINI_SSC_OFFSET) (\<lambda>miniSscOffset'.
     bind_io (getRawParameter usc PARAMETER_SERIAL_TIMEOUT) (\<lambda>serialTimeout'.
     bind_io (getRawParameter usc PARAMETER_SCRIPT_DONE) (\<lambda>scriptDone'.
     (let settings1 = default_UscSettings
            \<lparr>serialMode := serialMode', fixedBaudRate := fixedBaudRate',
             enableCrc := (enableCrc' \<noteq> 0), neverSuspend := (neverSuspend' \<noteq> 0),
             serialDeviceNumber := serialDeviceNumber', miniSscOffset := miniSscOffset',
             serialTimeout := serialTimeout', scriptDone := (scriptDone' \<noteq> 0)\<rparr>
      in
     bind_io (if microMaestro usc
              then bind_io (getRawParameter usc PARAMETER_SERVOS_AVAILABLE) (\<lambda>servosAvailable'.
                   bind_io (getRawParameter usc PARAMETER_SERVO_PERIOD) (\<lambda>servoPeriod'.
                   return_io (settings1\<lparr>servosAvailable := servosAvailable',
                                        servoPeriod := servoPeriod'\<rparr>)))
              else bind_io (getRawParameter usc PARAMETER_MINI_MAESTRO_SERVO_PERIOD_HU) (\<lambda>hu.
                   bind_io (getRawParameter usc PARAMETER_MINI_MAESTRO_SERVO_PERIOD_L) (\<lambda>l.
                   bind_io (getRawParameter usc PARAMETER_SERVO_MULTIPLIER) (\<lambda>multiplier.
                   return_io (settings1\<lparr>miniMaestroServoPeriod := push_bit 8 hu OR l,
                                        servoMultiplier := multiplier + 1\<rparr>))))) (\<lambda>settings2.
     bind_io (if servoCount usc > 18
              then bind_io (getRawParameter usc PARAMETER_ENABLE_PULLUPS) (\<lambda>enablePullups'.
                   return_io (settings2\<lparr>enablePullups := (enablePullups' \<noteq> 0)\<rparr>))
              else return_io settings2) (\<lambda>settings3.
     bind_io (if microMaestro usc
              then bind_io (getRawParameter usc PARAMETER_IO_MASK_C) (\<lambda>io_mask.
                   bind_io (getRawParameter usc PARAMETER_OUTPUT_MASK_C) (\<lambda>output_mask.
                   return_io (io_mask, output_mask, [])))
              else bind_io (getRawParameterList usc
                              (map (\<lambda>i. PARAMETER_CHANNEL_MODES_0_3 + int i) [0..<6])) (\<lambda>mode_bytes.
                   return_io (0, 0, mode_bytes))) (\<lambda>(io_mask, output_mask, mode_bytes).
     bind_io (getChannels usc io_mask output_mask mode_bytes [0..<servoCount usc]) (\<lambda>channels.
     return_io (settings3\<lparr>channelSettings := channelSettings settings3 @ channels\<rparr>)))))))))))))))"

subsection \<open>main.py: reconciling the settings with the device\<close>

datatype warning =
    TooManyChannels nat nat       \<comment> \<open>'The settings loaded include settings for {} channels, but ...'\<close>
  | TooFewChannels nat nat        \<comment> \<open>'The settings loaded include settings for only {} channels, ...'\<close>
  | SerialDeviceNumberChanged     \<comment> \<open>'The serial device number must be less than 128. ...'\<close>

function padChannels :: "Usc \<Rightarrow> UscSettings \<Rightarrow> UscSettings" where
  \<comment> \<open>the loop \<open>while len(settings) < self.servoCount\<close>\<close>
  "padChannels usc settings =
     (if length (channelSettings settings) < servoCount usc
      then padChannels usc
             (settings\<lparr>channelSettings := channelSettings settings @
                [if microMaestro usc \<and> servosAvailable settings \<le> int (length (channelSettings settings))
                 then default_ChannelSetting\<lparr>mode := Input\<rparr>
                 else default_ChannelSetting]\<rparr>)
      else settings)"
  by pat_completeness auto
termination
  by (relation "measure (\<lambda>(usc, settings). servoCount usc - length (channelSettings settings))")
     auto

definition padding :: "Usc \<Rightarrow> UscSettings \<Rightarrow> nat \<Rightarrow> ChannelSetting" where
  \<comment> \<open>the channel setting the loop appends at index \<open>k\<close>\<close>
  "padding usc settings k =
     (if microMaestro usc \<and> servosAvailable settings \<le> int k
      then default_ChannelSetting\<lparr>mode := Input\<rparr> else default_ChannelSetting)"

definition fixChannel :: "ChannelSetting \<Rightarrow> ChannelSetting" where
  \<comment> \<open>the body of the loop \<open>for cs in settings.channelSettings\<close>\<close>
  "fixChannel cs =
     (if mode cs = Input
      then cs\<lparr>homeMode := Ignore, minimum := 0, maximum := 1024, speed := 0, acceleration := 0,
              neutral := 1024, range' := 1905\<rparr>
      else if mode cs = Output
      then cs\<lparr>minimum := 3986, maximum := 8000, speed := 0, acceleration := 0,
              neutral := 6000, range' := 1905\<rparr>
      else cs)"

definition fixSettings :: "Usc \<Rightarrow> UscSettings \<Rightarrow> UscSettings \<times> warning list" where
  \<comment> \<open>the settings object is changed in place: it is returned beside the warnings\<close>
  "fixSettings usc settings =
     (let (settings1, warnings1) =
            (if length (channelSettings settings) > servoCount usc
             then (settings\<lparr>channelSettings := take (servoCount usc) (channelSettings settings)\<rparr>,
                   [TooManyChannels (length (channelSettings settings)) (servoCount usc)])
             else (settings, []));
          (settings2, warnings2) =
            (if length (channelSettings settings1) < servoCount usc
             then (padChannels usc settings1,
                   warnings1 @ [TooFewChannels (length (channelSettings settings1)) (servoCount usc)])
             else (settings1, warnings1));
          settings3 = settings2\<lparr>channelSettings := map fixChannel (channelSettings settings2)\<rparr>
      in if serialDeviceNumber settings3 \<ge> 128
         then (settings3\<lparr>serialDeviceNumber := 12\<rparr>, warnings2 @ [SerialDeviceNumberChanged])
         else (settings3, warnings2))"

subsection \<open>Example sessions and settings\<close>

text \<open>
  Concrete inputs on which the theorems below are instantiated: a compact device (product
  0x0089) whose IN transfers return no data, and settings with six channels, of which
  channel 2 is an input and channel 5 an output.
\<close>

definition example_micro :: Usc where
  "example_micro = \<lparr>servoCount = 6, microMaestro = True, subroutineOffsetBlocks = 64,
                     maxScriptLength = 1024, reply = (\<lambda>dev request. [])\<rparr>"

definition example_settings :: UscSettings where
  "example_settings = default_UscSettings
     \<lparr>channelSettings :=
        [default_ChannelSetting, default_ChannelSetting,
         default_ChannelSetting\<lparr>mode := Input\<rparr>, default_ChannelSetting,
         default_ChannelSetting, default_ChannelSetting\<lparr>mode := Output\<rparr>]\<rparr>"

definition example_reader :: Usc where
  \<comment> \<open>a compact device answering 6000 to a two-byte read and 5 to a one-byte read\<close>
  "example_reader = \<lparr>servoCount = 6, microMaestro = True, subroutineOffsetBlocks = 64,
                      maxScriptLength = 1024,
                      reply = (\<lambda>dev request.
                                 if data_or_wLength request = WLength 2 then [0x70, 0x17] else [0x05])\<rparr>"

definition example_buffer :: "8 word list" where
  \<comment> \<open>a status buffer of 138 bytes, zero but for byte 7\<close>
  "example_buffer = replicate 7 0 @ [1] @ replicate 130 0"

definition example_status :: Usc where
  \<comment> \<open>a compact device that answers every IN transfer with that buffer\<close>
  "example_status = \<lparr>servoCount = 6, microMaestro = True, subroutineOffsetBlocks = 64,
                      maxScriptLength = 1024, reply = (\<lambda>dev request. example_buffer)\<rparr>"

definition servoAt :: "8 word list \<Rightarrow> nat \<Rightarrow> ServoStatus" where
  \<comment> \<open>the status record whose seven bytes start at offset \<open>off\<close>\<close>
  "servoAt bs off =
     \<lparr>position = le16 (drop off bs), target = le16 (drop (off + 2) bs),
      speed = le16 (drop (off + 4) bs), acceleration = uint (bs ! (off + 6))\<rparr>"




definition maskBits :: "UscSettings \<Rightarrow> nat list \<Rightarrow> (ChannelMode \<Rightarrow> bool) \<Rightarrow> nat \<Rightarrow> bool" where
  \<comment> \<open>some channel of \<open>js\<close> with a selected mode has port \<open>n\<close>\<close>
  "maskBits settings js sel n \<longleftrightarrow>
     (\<exists>j \<in> set js. sel (mode (channelSettings settings ! j)) \<and> channelToPort (int j) = Inr (int n))"

section \<open>Verification\<close>

subsection \<open>The speed codec\<close>



















subsection \<open>The baud-rate transform\<close>

lemma py_int_divide:
  assumes "b \<noteq> 0"
  shows "py_int (real_of_int a / real_of_int b) = sgn a * sgn b * (\<bar>a\<bar> div \<bar>b\<bar>)"
proof -
  have fl: "\<And>x y :: int. \<lfloor>real_of_int x / real_of_int y\<rfloor> = x div y"
    by (simp add: floor_divide_of_int_eq)
  have cl: "\<And>x y :: int. \<lceil>real_of_int x / real_of_int y\<rceil> = - ((- x) div y)"
    by (simp add: ceiling_def flip: fl)
  consider "0 \<le> a" "0 < b" | "a < 0" "0 < b" | "0 \<le> a" "b < 0" | "a < 0" "b < 0"
    using assms by linarith
  then show ?thesis
  proof cases
    case 1
    then have "0 \<le> real_of_int a / real_of_int b" by simp
    then show ?thesis using 1 by (cases "a = 0") (simp_all add: py_int_def fl)
  next
    case 2
    then have "real_of_int a / real_of_int b < 0" by (simp add: divide_neg_pos)
    then show ?thesis using 2 by (simp add: py_int_def cl)
  next
    case 3
    show ?thesis
    proof (cases "a = 0")
      case True
      then show ?thesis by (simp add: py_int_def)
    next
      case False
      then have "real_of_int a / real_of_int b < 0" using 3 by (simp add: divide_pos_neg)
      then have "py_int (real_of_int a / real_of_int b) = - ((- a) div b)"
        by (simp add: py_int_def cl)
      also have "(- a) div b = a div (- b)" by (simp add: div_minus_right)
      finally show ?thesis using 3 False by simp
    qed
  next
    case 4
    then have "0 \<le> real_of_int a / real_of_int b" by (simp add: divide_nonpos_neg)
    then have "py_int (real_of_int a / real_of_int b) = a div b" by (simp add: py_int_def fl)
    also have "a div b = (- a) div (- b)" by simp
    finally show ?thesis using 4 by simp
  qed
qed

lemma bps_quotient:
  assumes "bps \<noteq> 0"
  shows "(real_of_int 12000000 - real_of_int bps / 2) / real_of_int bps
           = real_of_int (24000000 - bps) / real_of_int (2 * bps)"
  using assms by (simp add: field_simps)

text \<open>
  Claim C7 (as amended).  For every \<open>bps\<close> other than 0 the fixed-baud-rate transform
  computes \<open>int((12000000 - bps / 2) / bps)\<close>, the quotient truncated towards zero and not
  rounded to the nearest integer: it is the truncated integer quotient of \<open>24000000 - bps\<close>
  by \<open>2 * bps\<close>.  The value 0 is mapped to 0 in both directions.
\<close>

theorem convertBpsToSpbrg_truncates:
  "convertBpsToSpbrg 0 = 0
   \<and> convertSpbrgToBps 0 = Inr 0
   \<and> (bps \<noteq> 0 \<longrightarrow>
        convertBpsToSpbrg bps = sgn (24000000 - bps) * sgn bps * (\<bar>24000000 - bps\<bar> div (2 * \<bar>bps\<bar>)))
   \<and> (0 < bps \<and> bps \<le> 24000000 \<longrightarrow> convertBpsToSpbrg bps = (24000000 - bps) div (2 * bps))"
proof (intro conjI impI)
  show "convertBpsToSpbrg 0 = 0" by (simp add: convertBpsToSpbrg_def)
  show "convertSpbrgToBps 0 = Inr 0" by (simp add: convertSpbrgToBps_def)
next
  assume nz: "bps \<noteq> 0"
  then have nz2: "2 * bps \<noteq> 0" by simp
  have "convertBpsToSpbrg bps = py_int (real_of_int (24000000 - bps) / real_of_int (2 * bps))"
    using nz bps_quotient [OF nz] by (simp add: convertBpsToSpbrg_def)
  also have "\<dots> = sgn (24000000 - bps) * sgn (2 * bps) * (\<bar>24000000 - bps\<bar> div \<bar>2 * bps\<bar>)"
    by (rule py_int_divide [OF nz2])
  finally show "convertBpsToSpbrg bps = sgn (24000000 - bps) * sgn bps * (\<bar>24000000 - bps\<bar> div (2 * \<bar>bps\<bar>))"
    by (simp add: sgn_mult abs_mult)
next
  assume r: "0 < bps \<and> bps \<le> 24000000"
  then have nz: "bps \<noteq> 0" and nz2: "2 * bps \<noteq> 0" by simp_all
  have "convertBpsToSpbrg bps = py_int (real_of_int (24000000 - bps) / real_of_int (2 * bps))"
    using nz bps_quotient [OF nz] by (simp add: convertBpsToSpbrg_def)
  also have "\<dots> = sgn (24000000 - bps) * sgn (2 * bps) * (\<bar>24000000 - bps\<bar> div \<bar>2 * bps\<bar>)"
    by (rule py_int_divide [OF nz2])
  finally show "convertBpsToSpbrg bps = (24000000 - bps) div (2 * bps)"
    using r by (cases "bps = 24000000") (simp_all add: sgn_mult)
qed

theorem convertBpsToSpbrg_truncates_witness:
  "(115200::int) \<noteq> 0 \<and> (0::int) < 115200 \<and> (115200::int) \<le> 24000000 \<and> convertBpsToSpbrg 115200 = 103"
  using convertBpsToSpbrg_truncates [of 115200] by simp

text \<open>
  At 115200 bps the quotient is 103.67: the code returns 103, rounding gives 104.
\<close>

theorem convertBpsToSpbrg_not_rounded:
  "convertBpsToSpbrg 115200 = 103 \<and> spec_convertBpsToSpbrg 115200 = 104"
  by (simp add: convertBpsToSpbrg_def spec_convertBpsToSpbrg_def py_int_def round_def)

subsection \<open>The parameter table\<close>

lemma servoParameter_range: "30 \<le> servoParameter p \<and> servoParameter p \<le> 38"
proof -
  have "0 \<le> (p - 30) mod 9" "(p - 30) mod 9 < 9" by simp_all
  then show ?thesis by (simp add: servoParameter_def)
qed

lemma servoParameter_cases:
  "servoParameter p \<in> {30, 31, 32, 33, 34, 35, 36, 37, 38}"
  using servoParameter_range [of p] by (simp; arith)

lemma getRange_unlisted:
  assumes "p \<notin> listedParameters"
  shows "getRange p =
     (if servoParameter p \<in> {37, 33, 32, 38} then Inr Range_u8
      else if servoParameter p \<in> {30, 34} then Inr (mkRange 2 0 32440)
      else if servoParameter p = 36 then Inr (mkRange 1 1 50)
      else Inl InvalidParameterId)"
  using assms by (simp add: getRange_def listedParameters_def)

lemma getRange_listed:
  assumes "p \<in> listedParameters"
  shows "\<exists>r. getRange p = Inr r"
  using assms by (auto simp add: getRange_def listedParameters_def)

lemma servoParameter_idem: "servoParameter (servoParameter p) = servoParameter p"
  by (simp add: servoParameter_def)

lemma slot_unlisted: "servoParameter p \<notin> listedParameters"
  using servoParameter_range [of p] by (auto simp: listedParameters_def)

lemma below_30_cases:
  assumes "0 \<le> p" "p < 30" "p \<notin> listedParameters"
  shows "p \<in> {5, 7, 20, 23, 27, 28, 29}"
proof -
  have "p \<in> {0..29}" using assms by simp
  also have "{0..29::int} = {0,1,2,3,4,5,6,7,8,9,10,11,12,13,14,15,16,17,18,19,20,21,22,23,24,25,26,27,28,29}"
    by (auto; arith)
  finally show ?thesis using assms(3) by (auto simp: listedParameters_def)
qed

lemma below_30_slot:
  assumes "0 \<le> p" "p < 30" "p \<notin> listedParameters"
  shows "servoParameter p \<in> {32, 34, 36, 37, 38}"
  using below_30_cases [OF assms] by (auto simp: servoParameter_def)

text \<open>
  Claim C10.  Parameter identifiers are parameter addresses, hence non-negative.  The lookup
  \<open>getRange\<close> fails exactly when the identifier is not one of the listed device-wide
  identifiers and its fold \<open>((id - 30) mod 9) + 30\<close> is 31 or 35, and then with the
  invalid-parameter error; every other unlisted identifier gets the range of the servo-0
  slot it folds onto.  No identifier from 0 to 29 fails: the unlisted ones there are
  5, 7, 20, 23, 27, 28 and 29, and a failing identifier is at least 30.
\<close>

theorem getRange_total_below_servo_region:
  "(getRange p = Inl InvalidParameterId
      \<longleftrightarrow> p \<notin> listedParameters \<and> servoParameter p \<in> {31, 35})
   \<and> (\<forall>e. getRange p = Inl e \<longrightarrow> e = InvalidParameterId)
   \<and> (p \<notin> listedParameters \<and> servoParameter p \<notin> {31, 35}
        \<longrightarrow> (\<exists>r. getRange p = Inr r \<and> getRange (servoParameter p) = Inr r))
   \<and> (0 \<le> p \<and> p < 30 \<longrightarrow> (\<exists>r. getRange p = Inr r))
   \<and> (0 \<le> p \<and> p < 30 \<longrightarrow> (p \<notin> listedParameters \<longleftrightarrow> p \<in> {5, 7, 20, 23, 27, 28, 29}))
   \<and> (0 \<le> p \<and> (\<exists>e. getRange p = Inl e) \<longrightarrow> 30 \<le> p)"
proof -
  have fail_iff: "getRange p = Inl InvalidParameterId
      \<longleftrightarrow> p \<notin> listedParameters \<and> servoParameter p \<in> {31, 35}"
  proof (cases "p \<in> listedParameters")
    case True
    then show ?thesis using getRange_listed [OF True] by auto
  next
    case False
    show ?thesis using servoParameter_cases [of p] False
      by (auto simp: getRange_unlisted [OF False])
  qed
  have only: "\<forall>e. getRange p = Inl e \<longrightarrow> e = InvalidParameterId"
    by (auto simp: getRange_def split: if_splits)
  have slot: "p \<notin> listedParameters \<and> servoParameter p \<notin> {31, 35}
        \<longrightarrow> (\<exists>r. getRange p = Inr r \<and> getRange (servoParameter p) = Inr r)"
  proof
    assume a: "p \<notin> listedParameters \<and> servoParameter p \<notin> {31, 35}"
    then have u: "p \<notin> listedParameters" by simp
    show "\<exists>r. getRange p = Inr r \<and> getRange (servoParameter p) = Inr r"
      using servoParameter_cases [of p] a
      by (auto simp: getRange_unlisted [OF u] getRange_unlisted [OF slot_unlisted] servoParameter_idem)
  qed
  have below: "0 \<le> p \<and> p < 30 \<longrightarrow> (\<exists>r. getRange p = Inr r)"
  proof
    assume a: "0 \<le> p \<and> p < 30"
    show "\<exists>r. getRange p = Inr r"
    proof (cases "p \<in> listedParameters")
      case True
      then show ?thesis by (rule getRange_listed)
    next
      case False
      then have "servoParameter p \<in> {32, 34, 36, 37, 38}" using a below_30_slot by simp
      then show ?thesis by (auto simp: getRange_unlisted [OF False])
    qed
  qed
  have ex: "0 \<le> p \<and> p < 30 \<longrightarrow> (p \<notin> listedParameters \<longleftrightarrow> p \<in> {5, 7, 20, 23, 27, 28, 29})"
    using below_30_cases [of p] by (auto simp: listedParameters_def)
  have ge: "0 \<le> p \<and> (\<exists>e. getRange p = Inl e) \<longrightarrow> 30 \<le> p"
  proof
    assume a: "0 \<le> p \<and> (\<exists>e. getRange p = Inl e)"
    show "30 \<le> p"
    proof (rule ccontr)
      assume "\<not> 30 \<le> p"
      then have "0 \<le> p \<and> p < 30" using a by simp
      then obtain r where "getRange p = Inr r" using below by blast
      then show False using a by auto
    qed
  qed
  show ?thesis using fail_iff only slot below ex ge by blast
qed

theorem getRange_total_below_servo_region_witness:
  "(0::int) \<le> 27 \<and> (27::int) < 30 \<and> 27 \<notin> listedParameters \<and> servoParameter 27 = 36
   \<and> getRange 27 = Inr (mkRange 1 1 50) \<and> getRange 36 = Inr (mkRange 1 1 50)
   \<and> (0::int) \<le> 31 \<and> getRange 31 = Inl InvalidParameterId \<and> (30::int) \<le> 31"
proof -
  have a: "27 \<notin> listedParameters" by (simp add: listedParameters_def)
  have b: "servoParameter 27 = 36" by (simp add: servoParameter_def)
  have c: "31 \<notin> listedParameters \<and> servoParameter 31 \<in> {31, 35}"
    by (simp add: listedParameters_def servoParameter_def)
  note T = getRange_total_below_servo_region [of 27]
  note U = getRange_total_below_servo_region [of 31]
  have d: "getRange 31 = Inl InvalidParameterId"
    using U [THEN conjunct1] c by simp
  have "\<exists>r. getRange 27 = Inr r \<and> getRange (servoParameter 27) = Inr r"
    using T [THEN conjunct2, THEN conjunct2, THEN conjunct1] a b by simp
  then have e: "getRange 27 = Inr (mkRange 1 1 50) \<and> getRange 36 = Inr (mkRange 1 1 50)"
    using b by (auto simp: getRange_def servoParameter_def)
  have f: "(30::int) \<le> 31"
    using U [THEN conjunct2, THEN conjunct2, THEN conjunct2, THEN conjunct2, THEN conjunct2] d by simp
  show ?thesis using a b d e f by simp
qed

text \<open>
  Integers below 0 are no parameter addresses; the fold does not spare them.
\<close>

lemma getRange_negative_identifier:
  "getRange (- 1) = Inl InvalidParameterId"
  by (simp add: getRange_def servoParameter_def)

subsection \<open>Transfers are only ever appended\<close>

lemma setRawParameter_Inl:
  "setRawParameter p v dev = (Inl e, dev') \<Longrightarrow> dev' = dev"
  by (auto simp: setRawParameter_def split: sum.splits)

lemma setRawParameter_Inr:
  assumes "setRawParameter p v dev = (Inr u, dev')"
  shows "\<exists>r. getRange p = Inr r \<and> minimumValue r \<le> v \<and> v \<le> maximumValue r
             \<and> dev' = dev @ [ctrl_transfer 0x40 REQUEST_SET_PARAMETER v (push_bit 8 (bytes r) + p) NoData]"
  using assms
  by (auto simp: setRawParameter_def requireArgumentRange_def setRawParameterNoChecks_def
           split: sum.splits if_splits)

lemma setRawParameter_extends:
  "setRawParameter p v dev = (r, dev') \<Longrightarrow> \<exists>ts. dev' = dev @ ts"
  by (cases r) (auto dest: setRawParameter_Inl setRawParameter_Inr)

lemma setRawParameters_extends:
  "setRawParameters ps dev = (r, dev') \<Longrightarrow> \<exists>ts. dev' = dev @ ts"
proof (induction ps arbitrary: dev)
  case Nil
  then show ?case by simp
next
  case (Cons a ps)
  obtain p v where a: "a = (p, v)" by (cases a)
  obtain r1 dev1 where s: "setRawParameter p v dev = (r1, dev1)" by (cases "setRawParameter p v dev")
  then obtain ts1 where t1: "dev1 = dev @ ts1" using setRawParameter_extends by blast
  show ?case
  proof (cases r1)
    case (Inl e)
    then show ?thesis using Cons.prems a s t1 by auto
  next
    case (Inr u)
    then have "setRawParameters ps dev1 = (r, dev')" using Cons.prems a s by simp
    then obtain ts where "dev' = dev1 @ ts" using Cons.IH by blast
    then show ?thesis using t1 by simp
  qed
qed

lemma channelToPort_cases:
  "(0 \<le> c \<and> c \<le> 3 \<longrightarrow> channelToPort c = Inr c)
   \<and> channelToPort 4 = Inr 6 \<and> channelToPort 5 = Inr 7
   \<and> (6 \<le> c \<longrightarrow> channelToPort c = Inl InvalidChannel)"
  by (simp add: channelToPort_def)

lemma setChannelMode_micro:
  assumes "microMaestro usc" "setChannelMode usc i setting st = Inr st'"
  shows "(\<forall>n. bit (ioMask st') n \<longleftrightarrow> bit (ioMask st) n
              \<or> ((mode setting = Input \<or> mode setting = Output) \<and> channelToPort (int i) = Inr (int n)))
       \<and> (\<forall>n. bit (outputMask st') n \<longleftrightarrow> bit (outputMask st) n
              \<or> (mode setting = Output \<and> channelToPort (int i) = Inr (int n)))"
proof -
  have port_nonneg: "\<And>port. channelToPort (int i) = Inr port \<Longrightarrow> 0 \<le> port"
    by (auto simp: channelToPort_def split: if_splits)
  have bit1: "\<And>port n. 0 \<le> port \<Longrightarrow> bit ((2::int) ^ nat port) n \<longleftrightarrow> port = int n"
    by (auto simp: bit_exp_iff)
  have bit2: "\<And>n. bit ((2::int) ^ n) n"
    by (simp add: bit_exp_iff)
  show ?thesis
    using assms port_nonneg
    by (auto simp: setChannelMode_def bit_or_iff bit1 bit2 split: sum.splits if_splits)
qed

lemma setChannels_micro_masks:
  assumes "microMaestro usc" "setChannels usc settings js st dev = (Inr st', dev')"
  shows "(\<forall>n. bit (ioMask st') n \<longleftrightarrow> bit (ioMask st) n
              \<or> maskBits settings js (\<lambda>m. m = Input \<or> m = Output) n)
       \<and> (\<forall>n. bit (outputMask st') n \<longleftrightarrow> bit (outputMask st) n
              \<or> maskBits settings js (\<lambda>m. m = Output) n)"
  using assms(2)
proof (induction js arbitrary: st dev)
  case Nil
  then show ?case by (simp add: maskBits_def)
next
  case (Cons i js)
  let ?setting = "channelSettings settings ! i"
  from Cons.prems have len: "i < length (channelSettings settings)"
    by (auto split: if_splits)
  from Cons.prems len obtain st1 where m: "setChannelMode usc i ?setting st = Inr st1"
    by (auto simp: Let_def split: sum.splits)
  from Cons.prems len m obtain dev1 where
    rest: "setChannels usc settings js st1 dev1 = (Inr st', dev')"
    by (auto simp: Let_def split: sum.splits prod.splits)
  note step = setChannelMode_micro [OF assms(1) m]
  note ih = Cons.IH [OF rest]
  show ?case
    using step ih by (simp add: maskBits_def)
qed

lemma writeBlocks_extends:
  "writeBlocks bytecode blocks dev = (r, dev') \<Longrightarrow> \<exists>ts. dev' = dev @ ts"
proof (induction blocks arbitrary: dev)
  case Nil
  then show ?case by simp
next
  case (Cons block blocks)
  show ?case
  proof (cases "scriptBlock bytecode block")
    case (Inl e)
    then show ?thesis using Cons.prems by simp
  next
    case (Inr bs)
    then have "writeBlocks bytecode blocks
                 (dev @ [ctrl_transfer 0x40 REQUEST_WRITE_SCRIPT 0 (int block) (Data bs)]) = (r, dev')"
      using Cons.prems by simp
    then obtain ts where
      "dev' = (dev @ [ctrl_transfer 0x40 REQUEST_WRITE_SCRIPT 0 (int block) (Data bs)]) @ ts"
      using Cons.IH by blast
    then show ?thesis by simp
  qed
qed

lemma writeScript_extends:
  "writeScript bytecode dev = (r, dev') \<Longrightarrow> \<exists>ts. dev' = dev @ ts"
  unfolding writeScript_def by (rule writeBlocks_extends)

lemma setSubroutines_extends:
  "setSubroutines usc CALL addresses commands dev = (r, dev') \<Longrightarrow> \<exists>ts. dev' = dev @ ts"
  by (auto simp: setSubroutines_def split: sum.splits)

lemma getVariableMiniMaestro_variables_extends:
  "getVariableMiniMaestro_variables usc dev = (r, dev') \<Longrightarrow> \<exists>ts. dev' = dev @ ts"
  by (auto simp: getVariableMiniMaestro_variables_def Let_def split: sum.splits if_splits)

lemma reinitialize_extends:
  "reinitialize usc dev = (r, dev') \<Longrightarrow> \<exists>ts. dev' = dev @ ts"
proof (cases "microMaestro usc")
  case True
  assume "reinitialize usc dev = (r, dev')"
  then show ?thesis using True by (auto simp: reinitialize_def Let_def)
next
  case False
  assume a: "reinitialize usc dev = (r, dev')"
  let ?d = "dev @ [ctrl_transfer 0x40 REQUEST_REINITIALIZE 0 0 NoData]"
  obtain r1 d1 where g: "getVariableMiniMaestro_variables usc ?d = (r1, d1)"
    by (cases "getVariableMiniMaestro_variables usc ?d")
  then obtain ts where "d1 = ?d @ ts" using getVariableMiniMaestro_variables_extends by blast
  moreover have "dev' = d1" using a False g by (auto simp: reinitialize_def Let_def split: sum.splits)
  ultimately show ?thesis by simp
qed

lemma extends_trans:
  "\<exists>ts. d1 = d0 @ ts \<Longrightarrow> \<exists>ts. d2 = d1 @ ts \<Longrightarrow> \<exists>ts. d2 = (d0 :: transfer list) @ ts"
  by auto

lemma loadProgram_extends:
  assumes "loadProgram usc QUIT CALL program CRC dev = (r, dev')"
  shows "\<exists>ts. dev' = dev @ ts"
proof -
  let ?d1 = "setScriptDone 1 dev"
  have e1: "\<exists>ts. ?d1 = dev @ ts" by (simp add: setScriptDone_def)
  show ?thesis
  proof (cases program)
    case None
    then have "dev' = ?d1" using assms by (simp add: loadProgram_def Let_def)
    then show ?thesis using e1 by simp
  next
    case (Some p)
    show ?thesis
    proof (cases "length (byteList p) > maxScriptLength usc")
      case True
      then have "dev' = ?d1" using assms Some by (simp add: loadProgram_def Let_def)
      then show ?thesis using e1 by simp
    next
      case False
      define bl where "bl = (if length (byteList p) < maxScriptLength usc
                                 then byteList p @ [QUIT] else byteList p)"
      let ?d2 = "eraseScript ?d1"
      have e2: "\<exists>ts. ?d2 = dev @ ts" by (simp add: eraseScript_def setScriptDone_def)
      obtain r3 d3 where s3: "setSubroutines usc CALL (subroutineAddresses p) (subroutineCommands p) ?d2 = (r3, d3)"
        by (cases "setSubroutines usc CALL (subroutineAddresses p) (subroutineCommands p) ?d2")
      have e3: "\<exists>ts. d3 = dev @ ts"
        using extends_trans [OF e2 setSubroutines_extends [OF s3]] .
      show ?thesis
      proof (cases r3)
        case (Inl e)
        then have "dev' = d3" using assms Some False s3 by (simp add: loadProgram_def Let_def)
        then show ?thesis using e3 by simp
      next
        case r3: (Inr u3)
        obtain r4 d4 where s4: "writeScript bl d3 = (r4, d4)" by (cases "writeScript bl d3")
        have e4: "\<exists>ts. d4 = dev @ ts"
          using extends_trans [OF e3 writeScript_extends [OF s4]] .
        show ?thesis
        proof (cases r4)
          case (Inl e)
          then have "dev' = d4" using assms Some False s3 r3 s4
            by (simp add: loadProgram_def Let_def bl_def)
          then show ?thesis using e4 by simp
        next
          case r4: (Inr u4)
          obtain r5 d5 where s5: "(if CRC then setRawParameter PARAMETER_SCRIPT_CRC (crc p) d4
                                   else (Inr (), d4)) = (r5, d5)"
            by (cases "(if CRC then setRawParameter PARAMETER_SCRIPT_CRC (crc p) d4 else (Inr (), d4))")
          have "\<exists>ts. d5 = d4 @ ts"
            using s5 setRawParameter_extends by (cases CRC) auto
          then have e5: "\<exists>ts. d5 = dev @ ts" using extends_trans [OF e4] by blast
          show ?thesis
          proof (cases r5)
            case (Inl e)
            then have "dev' = d5" using assms Some False s3 r3 s4 r4 s5
              by (simp add: loadProgram_def Let_def bl_def)
            then show ?thesis using e5 by simp
          next
            case (Inr u5)
            then have "reinitialize usc d5 = (r, dev')" using assms Some False s3 r3 s4 r4 s5
              by (simp add: loadProgram_def Let_def bl_def)
            then show ?thesis using extends_trans [OF e5 reinitialize_extends] by blast
          qed
        qed
      qed
    qed
  qed
qed

lemma setChannels_extends:
  "setChannels usc settings js st dev = (r, dev') \<Longrightarrow> \<exists>ts. dev' = dev @ ts"
proof (induction js arbitrary: st dev)
  case Nil
  then show ?case by simp
next
  case (Cons i js)
  show ?case
  proof (cases "length (channelSettings settings) \<le> i")
    case True
    then show ?thesis using Cons.prems by simp
  next
    case False
    let ?setting = "channelSettings settings ! i"
    show ?thesis
    proof (cases "setChannelMode usc i ?setting st")
      case (Inl e)
      then show ?thesis using Cons.prems False by (simp add: Let_def)
    next
      case (Inr st1)
      obtain r1 d1 where s: "setRawParameters (channelParameters i ?setting) dev = (r1, d1)"
        by (cases "setRawParameters (channelParameters i ?setting) dev")
      note e1 = setRawParameters_extends [OF s]
      show ?thesis
      proof (cases r1)
        case (Inl e)
        then have "dev' = d1" using Cons.prems False Inr s by (simp add: Let_def)
        then show ?thesis using e1 by simp
      next
        case r1: (Inr u)
        then have "setChannels usc settings js st1 d1 = (r, dev')"
          using Cons.prems False Inr s by (simp add: Let_def)
        then show ?thesis using extends_trans [OF e1 Cons.IH] by blast
      qed
    qed
  qed
qed

subsection \<open>Channel modes of the compact variant\<close>

lemma setUscSettings_Inr:
  assumes "fst (setUscSettings usc QUIT CALL settings newScript dev) = Inr u"
  obtains dev1 st dev2 dev3 ts where
    "setRawParameters (deviceParameters usc settings) dev = (Inr (), dev1)"
    "setChannels usc settings [0..<servoCount usc]
        \<lparr>ioMask = 0, outputMask = 0, channelModeBytes = replicate 6 0\<rparr> dev1 = (Inr st, dev2)"
    "setRawParameters (modeParameters usc st) dev2 = (Inr (), dev3)"
    "snd (setUscSettings usc QUIT CALL settings newScript dev) = dev3 @ ts"
proof -
  obtain r1 dev1 where s1: "setRawParameters (deviceParameters usc settings) dev = (r1, dev1)"
    by (cases "setRawParameters (deviceParameters usc settings) dev")
  have r1: "r1 = Inr ()" using assms s1 by (cases r1) (auto simp: setUscSettings_def)
  obtain r2 dev2 where s2: "setChannels usc settings [0..<servoCount usc]
        \<lparr>ioMask = 0, outputMask = 0, channelModeBytes = replicate 6 0\<rparr> dev1 = (r2, dev2)"
    by (cases "setChannels usc settings [0..<servoCount usc]
        \<lparr>ioMask = 0, outputMask = 0, channelModeBytes = replicate 6 0\<rparr> dev1")
  obtain st where r2: "r2 = Inr st" using assms s1 r1 s2 by (cases r2) (auto simp: setUscSettings_def)
  obtain r3 dev3 where s3: "setRawParameters (modeParameters usc st) dev2 = (r3, dev3)"
    by (cases "setRawParameters (modeParameters usc st) dev2")
  have r3: "r3 = Inr ()" using assms s1 r1 s2 r2 s3 by (cases r3) (auto simp: setUscSettings_def)
  have "\<exists>ts. snd (setUscSettings usc QUIT CALL settings newScript dev) = dev3 @ ts"
  proof (cases newScript)
    case True
    obtain r4 dev4 where s4: "loadProgram usc QUIT CALL (bytecodeProgram settings) True dev3 = (r4, dev4)"
      by (cases "loadProgram usc QUIT CALL (bytecodeProgram settings) True dev3")
    then have "snd (setUscSettings usc QUIT CALL settings newScript dev) = dev4"
      using s1 r1 s2 r2 s3 r3 True by (simp add: setUscSettings_def)
    then show ?thesis using loadProgram_extends [OF s4] by simp
  next
    case False
    then show ?thesis using s1 r1 s2 r2 s3 r3 by (simp add: setUscSettings_def)
  qed
  then obtain ts where "snd (setUscSettings usc QUIT CALL settings newScript dev) = dev3 @ ts" by blast
  then show ?thesis using that s1 r1 s2 r2 s3 r3 by blast
qed

lemma port_injective:
  assumes "i < 6" "j < 6" "channelToPort (int i) = Inr p" "channelToPort (int j) = Inr p"
  shows "i = j"
  using assms by (auto simp: channelToPort_def split: if_splits)

lemma port_exists:
  assumes "i < 6"
  shows "\<exists>port. channelToPort (int i) = Inr (int port)"
proof (cases "i \<le> 3")
  case True
  then have "channelToPort (int i) = Inr (int i)" by (simp add: channelToPort_def)
  then show ?thesis by blast
next
  case False
  then have "channelToPort (int i) = Inr (int (i + 2))" using assms by (simp add: channelToPort_def)
  then show ?thesis by blast
qed

lemma maskBits_micro:
  assumes "i < 6" "channelToPort (int i) = Inr (int port)"
  shows "maskBits settings [0..<6] sel port \<longleftrightarrow> sel (mode (channelSettings settings ! i))"
proof
  assume "maskBits settings [0..<6] sel port"
  then obtain j where j: "j < 6" "sel (mode (channelSettings settings ! j))"
      "channelToPort (int j) = Inr (int port)"
    by (auto simp: maskBits_def)
  then have "i = j" using port_injective [OF assms(1) j(1) assms(2) j(3)] by simp
  then show "sel (mode (channelSettings settings ! i))" using j(2) by simp
next
  assume "sel (mode (channelSettings settings ! i))"
  then show "maskBits settings [0..<6] sel port"
    using assms by (auto simp: maskBits_def)
qed

lemma micro_mode_transfers:
  assumes "microMaestro usc" "setRawParameters (modeParameters usc st) dev = (Inr (), dev')"
  shows "dev' = dev @ [ctrl_transfer 0x40 REQUEST_SET_PARAMETER (ioMask st) (256 + PARAMETER_IO_MASK_C) NoData,
                       ctrl_transfer 0x40 REQUEST_SET_PARAMETER (outputMask st) (256 + PARAMETER_OUTPUT_MASK_C) NoData]"
proof -
  have g16: "getRange 16 = Inr Range_u8" and g17: "getRange 17 = Inr Range_u8"
    by (simp_all add: getRange_def)
  obtain r1 d1 where s1: "setRawParameter 16 (ioMask st) dev = (r1, d1)"
    by (cases "setRawParameter 16 (ioMask st) dev")
  have r1: "r1 = Inr ()" using assms s1 by (cases r1) (auto simp: modeParameters_def)
  then have s2: "setRawParameter 17 (outputMask st) d1 = (Inr (), dev')"
    using assms s1 by (auto simp: modeParameters_def split: sum.splits prod.splits)
  from setRawParameter_Inr [OF s1 [unfolded r1]] g16
  have d1: "d1 = dev @ [ctrl_transfer 0x40 REQUEST_SET_PARAMETER (ioMask st) (256 + 16) NoData]"
    by (auto simp: Range_u8_def mkRange_def)
  from setRawParameter_Inr [OF s2] g17
  have "dev' = d1 @ [ctrl_transfer 0x40 REQUEST_SET_PARAMETER (outputMask st) (256 + 17) NoData]"
    by (auto simp: Range_u8_def mkRange_def)
  then show ?thesis using d1 by simp
qed

text \<open>
  Claim C6.  \<open>channelToPort\<close> maps the channels 0 to 3 to themselves, 4 and 5 to the ports
  6 and 7, and fails for every channel from 6 on.  On the compact variant a successful
  \<open>setUscSettings\<close> writes an I/O mask and an output mask such that, for each channel, the
  bit of the I/O mask at the channel's port is set exactly when the mode is Input or
  Output, and the bit of the output mask exactly when the mode is Output (so Output sets
  both bits, for channel 5 at index 7, Input only the first, and Servo neither).
\<close>

theorem compact_channel_masks:
  "(0 \<le> c \<and> c \<le> 3 \<longrightarrow> channelToPort c = Inr c)
   \<and> channelToPort 4 = Inr 6 \<and> channelToPort 5 = Inr 7
   \<and> (6 \<le> c \<longrightarrow> channelToPort c = Inl InvalidChannel)
   \<and> (microMaestro usc \<and> servoCount usc = 6
        \<and> fst (setUscSettings usc QUIT CALL settings newScript dev) = Inr ()
      \<longrightarrow> (\<exists>io om before after.
             snd (setUscSettings usc QUIT CALL settings newScript dev)
               = before @ [ctrl_transfer 0x40 REQUEST_SET_PARAMETER io (256 + PARAMETER_IO_MASK_C) NoData,
                           ctrl_transfer 0x40 REQUEST_SET_PARAMETER om (256 + PARAMETER_OUTPUT_MASK_C) NoData]
                        @ after
             \<and> (\<forall>i<6. \<exists>port. channelToPort (int i) = Inr (int port)
                   \<and> (bit io port \<longleftrightarrow> mode (channelSettings settings ! i) = Input
                                        \<or> mode (channelSettings settings ! i) = Output)
                   \<and> (bit om port \<longleftrightarrow> mode (channelSettings settings ! i) = Output))))"
proof (intro conjI impI)
  assume "0 \<le> c \<and> c \<le> 3" then show "channelToPort c = Inr c" by (simp add: channelToPort_def)
next
  show "channelToPort 4 = Inr 6" by (simp add: channelToPort_def)
next
  show "channelToPort 5 = Inr 7" by (simp add: channelToPort_def)
next
  assume "6 \<le> c" then show "channelToPort c = Inl InvalidChannel" by (simp add: channelToPort_def)
next
  assume a: "microMaestro usc \<and> servoCount usc = 6
        \<and> fst (setUscSettings usc QUIT CALL settings newScript dev) = Inr ()"
  then have micro: "microMaestro usc" and six: "servoCount usc = 6"
    and ok: "fst (setUscSettings usc QUIT CALL settings newScript dev) = Inr ()" by simp_all
  obtain dev1 st dev2 dev3 ts where
    s1: "setRawParameters (deviceParameters usc settings) dev = (Inr (), dev1)"
    and s2: "setChannels usc settings [0..<servoCount usc]
        \<lparr>ioMask = 0, outputMask = 0, channelModeBytes = replicate 6 0\<rparr> dev1 = (Inr st, dev2)"
    and s3: "setRawParameters (modeParameters usc st) dev2 = (Inr (), dev3)"
    and s4: "snd (setUscSettings usc QUIT CALL settings newScript dev) = dev3 @ ts"
    by (rule setUscSettings_Inr [OF ok])
  note masks = setChannels_micro_masks [OF micro s2, unfolded six]
  have out: "snd (setUscSettings usc QUIT CALL settings newScript dev)
      = dev2 @ [ctrl_transfer 0x40 REQUEST_SET_PARAMETER (ioMask st) (256 + PARAMETER_IO_MASK_C) NoData,
                ctrl_transfer 0x40 REQUEST_SET_PARAMETER (outputMask st) (256 + PARAMETER_OUTPUT_MASK_C) NoData]
             @ ts"
    using s4 micro_mode_transfers [OF micro s3] by simp
  have bits: "\<forall>i<6. \<exists>port. channelToPort (int i) = Inr (int port)
                   \<and> (bit (ioMask st) port \<longleftrightarrow> mode (channelSettings settings ! i) = Input
                                        \<or> mode (channelSettings settings ! i) = Output)
                   \<and> (bit (outputMask st) port \<longleftrightarrow> mode (channelSettings settings ! i) = Output)"
  proof (intro allI impI)
    fix i :: nat assume i: "i < 6"
    from port_exists [OF i] obtain port where p: "channelToPort (int i) = Inr (int port)" by blast
    have "bit (ioMask st) port \<longleftrightarrow> mode (channelSettings settings ! i) = Input
                                        \<or> mode (channelSettings settings ! i) = Output"
      using masks maskBits_micro [OF i p, of settings "\<lambda>m. m = Input \<or> m = Output"] by simp
    moreover have "bit (outputMask st) port \<longleftrightarrow> mode (channelSettings settings ! i) = Output"
      using masks maskBits_micro [OF i p, of settings "\<lambda>m. m = Output"] by simp
    ultimately show "\<exists>port. channelToPort (int i) = Inr (int port)
                   \<and> (bit (ioMask st) port \<longleftrightarrow> mode (channelSettings settings ! i) = Input
                                        \<or> mode (channelSettings settings ! i) = Output)
                   \<and> (bit (outputMask st) port \<longleftrightarrow> mode (channelSettings settings ! i) = Output)"
      using p by blast
  qed
  show "\<exists>io om before after.
             snd (setUscSettings usc QUIT CALL settings newScript dev)
               = before @ [ctrl_transfer 0x40 REQUEST_SET_PARAMETER io (256 + PARAMETER_IO_MASK_C) NoData,
                           ctrl_transfer 0x40 REQUEST_SET_PARAMETER om (256 + PARAMETER_OUTPUT_MASK_C) NoData]
                        @ after
             \<and> (\<forall>i<6. \<exists>port. channelToPort (int i) = Inr (int port)
                   \<and> (bit io port \<longleftrightarrow> mode (channelSettings settings ! i) = Input
                                        \<or> mode (channelSettings settings ! i) = Output)
                   \<and> (bit om port \<longleftrightarrow> mode (channelSettings settings ! i) = Output))"
    using out bits by blast
qed

theorem compact_channel_masks_witness:
  "(0::int) \<le> 2 \<and> (2::int) \<le> 3 \<and> channelToPort 2 = Inr 2
   \<and> (6::int) \<le> 6 \<and> channelToPort 6 = Inl InvalidChannel
   \<and> microMaestro example_micro \<and> servoCount example_micro = 6
   \<and> fst (setUscSettings example_micro 0 54 example_settings False []) = Inr ()
   \<and> (\<exists>io om before after.
         snd (setUscSettings example_micro 0 54 example_settings False [])
           = before @ [ctrl_transfer 0x40 REQUEST_SET_PARAMETER io (256 + PARAMETER_IO_MASK_C) NoData,
                       ctrl_transfer 0x40 REQUEST_SET_PARAMETER om (256 + PARAMETER_OUTPUT_MASK_C) NoData]
                    @ after
         \<and> (\<forall>i<6. \<exists>port. channelToPort (int i) = Inr (int port)
               \<and> (bit io port \<longleftrightarrow> mode (channelSettings example_settings ! i) = Input
                                    \<or> mode (channelSettings example_settings ! i) = Output)
               \<and> (bit om port \<longleftrightarrow> mode (channelSettings example_settings ! i) = Output)))"
proof -
  note T = compact_channel_masks [of 2 example_micro 0 54 example_settings False "[]"]
  note U = compact_channel_masks [of 6 example_micro 0 54 example_settings False "[]"]
  have h1: "(0::int) \<le> 2 \<and> (2::int) \<le> 3" by simp
  have h2: "(6::int) \<le> 6" by simp
  have run: "fst (setUscSettings example_micro 0 54 example_settings False []) = Inr ()"
    by code_simp
  have h3: "microMaestro example_micro \<and> servoCount example_micro = 6
        \<and> fst (setUscSettings example_micro 0 54 example_settings False []) = Inr ()"
    using run by (simp add: example_micro_def)
  have c1: "channelToPort 2 = Inr 2"
    by (rule T [THEN conjunct1, THEN mp, OF h1])
  have c2: "channelToPort 6 = Inl InvalidChannel"
    by (rule U [THEN conjunct2, THEN conjunct2, THEN conjunct2, THEN conjunct1, THEN mp, OF h2])
  note c3 = T [THEN conjunct2, THEN conjunct2, THEN conjunct2, THEN conjunct2, THEN mp, OF h3]
  show ?thesis
    using h1 h2 h3 c1 c2 c3 by (intro conjI) simp_all
qed

lemma home_parameter_range:
  "getRange (specifyServo PARAMETER_SERVO0_HOME (int i)) = Inr (mkRange 2 0 32440)"
proof -
  have "specifyServo PARAMETER_SERVO0_HOME (int i) \<notin> listedParameters"
    by (auto simp: specifyServo_def listedParameters_def)
  moreover have "servoParameter (specifyServo PARAMETER_SERVO0_HOME (int i)) = 30"
    by (simp add: specifyServo_def servoParameter_def)
  ultimately show ?thesis by (simp add: getRange_unlisted)
qed

lemma home_parameter_accepts:
  "fst (setRawParameter (specifyServo PARAMETER_SERVO0_HOME (int i)) v dev) = Inr ()
     \<longleftrightarrow> 0 \<le> v \<and> v \<le> 32440"
  by (auto simp: setRawParameter_def home_parameter_range mkRange_def requireArgumentRange_def)

lemma getChannelSetting_home:
  assumes "fst (getChannelSetting usc io_mask output_mask mode_bytes i dev) = Inr cs'"
  shows "\<exists>raw. fst (getRawParameter usc (specifyServo PARAMETER_SERVO0_HOME (int i)) dev) = Inr raw
           \<and> (homeMode cs', home cs') = decodeHome raw"
proof -
  obtain dev' where run: "getChannelSetting usc io_mask output_mask mode_bytes i dev = (Inr cs', dev')"
    using assms by (cases "getChannelSetting usc io_mask output_mask mode_bytes i dev") simp
  obtain m where m: "getChannelMode usc io_mask output_mask mode_bytes i = Inr m"
    using run by (cases "getChannelMode usc io_mask output_mask mode_bytes i")
                 (auto simp: getChannelSetting_def bind_io_def lift_io_def)
  obtain r1 d1 where g: "getRawParameter usc (specifyServo PARAMETER_SERVO0_HOME (int i)) dev = (r1, d1)"
    by (cases "getRawParameter usc (specifyServo PARAMETER_SERVO0_HOME (int i)) dev")
  obtain raw where raw: "r1 = Inr raw"
    using run m g by (cases r1) (auto simp: getChannelSetting_def bind_io_def lift_io_def)
  have "homeMode cs' = fst (decodeHome raw) \<and> home cs' = snd (decodeHome raw)"
    using run m g raw
    by (auto simp: getChannelSetting_def bind_io_def lift_io_def return_io_def
             split: sum.splits prod.splits)
  then show ?thesis using g raw by (cases "decodeHome raw") auto
qed

text \<open>
  Claim C5 (as amended).  The home parameter of a channel is written as 1 when the mode
  is Input, whatever the stored home mode; otherwise as 0 for Off, 1 for Ignore and the
  stored home position for Goto, whatever that position is.  The range check of the
  parameter admits 0 to 32440, so under Goto the raw value lies in 2..32440 exactly when
  the stored position does.  Reading maps raw 0 to (Off, 0), raw 1 to (Ignore, 0) and every
  raw value from 2 on to Goto with that value; writing and reading are inverse for Off,
  Ignore, and for Goto with a stored position of at least 2.
\<close>

theorem home_codec:
  "(mode cs = Input \<longrightarrow> encodeHome cs = 1)
   \<and> (mode cs \<noteq> Input \<and> homeMode cs = Off \<longrightarrow> encodeHome cs = 0)
   \<and> (mode cs \<noteq> Input \<and> homeMode cs = Ignore \<longrightarrow> encodeHome cs = 1)
   \<and> (mode cs \<noteq> Input \<and> homeMode cs = Goto \<longrightarrow> encodeHome cs = home cs)
   \<and> hd (channelParameters i cs) = (specifyServo PARAMETER_SERVO0_HOME (int i), encodeHome cs)
   \<and> (fst (setRawParameter (specifyServo PARAMETER_SERVO0_HOME (int i)) (encodeHome cs) dev) = Inr ()
         \<longleftrightarrow> 0 \<le> encodeHome cs \<and> encodeHome cs \<le> 32440)
   \<and> (mode cs \<noteq> Input \<and> homeMode cs = Goto
         \<longrightarrow> (2 \<le> encodeHome cs \<and> encodeHome cs \<le> 32440 \<longleftrightarrow> 2 \<le> home cs \<and> home cs \<le> 32440))
   \<and> decodeHome 0 = (Off, 0) \<and> decodeHome 1 = (Ignore, 0)
   \<and> (2 \<le> v \<longrightarrow> decodeHome v = (Goto, v))
   \<and> (mode cs \<noteq> Input \<and> (homeMode cs = Goto \<longrightarrow> 2 \<le> home cs)
         \<longrightarrow> decodeHome (encodeHome cs) = (homeMode cs, if homeMode cs = Goto then home cs else 0))
   \<and> (fst (getChannelSetting usc io_mask output_mask mode_bytes i dev) = Inr cs'
         \<longrightarrow> (\<exists>raw. fst (getRawParameter usc (specifyServo PARAMETER_SERVO0_HOME (int i)) dev) = Inr raw
                \<and> (homeMode cs', home cs') = decodeHome raw))"
proof -
  have e: "(mode cs = Input \<longrightarrow> encodeHome cs = 1)
   \<and> (mode cs \<noteq> Input \<and> homeMode cs = Off \<longrightarrow> encodeHome cs = 0)
   \<and> (mode cs \<noteq> Input \<and> homeMode cs = Ignore \<longrightarrow> encodeHome cs = 1)
   \<and> (mode cs \<noteq> Input \<and> homeMode cs = Goto \<longrightarrow> encodeHome cs = home cs)"
    by (simp add: encodeHome_def correctedHomeMode_def)
  have p: "hd (channelParameters i cs) = (specifyServo PARAMETER_SERVO0_HOME (int i), encodeHome cs)"
    by (simp add: channelParameters_def)
  have g: "mode cs \<noteq> Input \<and> homeMode cs = Goto
         \<longrightarrow> (2 \<le> encodeHome cs \<and> encodeHome cs \<le> 32440 \<longleftrightarrow> 2 \<le> home cs \<and> home cs \<le> 32440)"
    by (simp add: encodeHome_def correctedHomeMode_def)
  have d: "decodeHome 0 = (Off, 0) \<and> decodeHome 1 = (Ignore, 0)
   \<and> (2 \<le> v \<longrightarrow> decodeHome v = (Goto, v))"
    by (simp add: decodeHome_def)
  have rt: "mode cs \<noteq> Input \<and> (homeMode cs = Goto \<longrightarrow> 2 \<le> home cs)
         \<longrightarrow> decodeHome (encodeHome cs) = (homeMode cs, if homeMode cs = Goto then home cs else 0)"
    by (cases "homeMode cs") (auto simp: encodeHome_def correctedHomeMode_def decodeHome_def)
  show ?thesis
    using e p g d rt home_parameter_accepts [of i "encodeHome cs" dev]
      getChannelSetting_home [of usc io_mask output_mask mode_bytes i dev cs']
    by (intro conjI impI) simp_all
qed

text \<open>
  Goto with the stored position 1 passes the range check, is written as raw 1, and reads
  back as Ignore.
\<close>

theorem home_codec_goto_one:
  "encodeHome (default_ChannelSetting\<lparr>homeMode := Goto, home := 1\<rparr>) = 1
   \<and> setRawParameter (specifyServo PARAMETER_SERVO0_HOME 0) 1 []
        = (Inr (), [ctrl_transfer 0x40 REQUEST_SET_PARAMETER 1 (512 + PARAMETER_SERVO0_HOME) NoData])
   \<and> decodeHome 1 = (Ignore, 0)"
  by (simp add: encodeHome_def correctedHomeMode_def default_ChannelSetting_def decodeHome_def
        setRawParameter_def specifyServo_def getRange_def servoParameter_def mkRange_def
        requireArgumentRange_def setRawParameterNoChecks_def)

theorem home_codec_witness:
  "mode (default_ChannelSetting\<lparr>mode := Input, homeMode := Goto\<rparr>) = Input
   \<and> encodeHome (default_ChannelSetting\<lparr>mode := Input, homeMode := Goto\<rparr>) = 1
   \<and> encodeHome default_ChannelSetting = 0
   \<and> encodeHome (default_ChannelSetting\<lparr>homeMode := Ignore\<rparr>) = 1
   \<and> encodeHome (default_ChannelSetting\<lparr>homeMode := Goto\<rparr>) = 6000
   \<and> fst (setRawParameter (specifyServo PARAMETER_SERVO0_HOME (int 0))
             (encodeHome (default_ChannelSetting\<lparr>homeMode := Goto\<rparr>)) []) = Inr ()
   \<and> (2::int) \<le> 6000 \<and> decodeHome 6000 = (Goto, 6000)
   \<and> decodeHome (encodeHome (default_ChannelSetting\<lparr>homeMode := Goto\<rparr>)) = (Goto, 6000)
   \<and> fst (getChannelSetting example_reader 0 0 [] 0 [])
        = Inr (default_ChannelSetting\<lparr>homeMode := Goto, minimum := 320, maximum := 320,
                 range' := 635, acceleration := 5\<rparr>)
   \<and> (\<exists>raw. fst (getRawParameter example_reader (specifyServo PARAMETER_SERVO0_HOME (int 0)) []) = Inr raw
          \<and> (Goto, 6000) = decodeHome raw)"
proof -
  let ?inp = "default_ChannelSetting\<lparr>mode := Input, homeMode := Goto\<rparr>"
  let ?ign = "default_ChannelSetting\<lparr>homeMode := Ignore\<rparr>"
  let ?goto = "default_ChannelSetting\<lparr>homeMode := Goto\<rparr>"
  let ?read = "default_ChannelSetting\<lparr>homeMode := Goto, minimum := 320, maximum := 320,
                 range' := 635, acceleration := 5\<rparr>"
  note A = home_codec [of ?inp 0 "[]" 6000 example_reader 0 0 "[]" ?read]
  note B = home_codec [of default_ChannelSetting 0 "[]" 6000 example_reader 0 0 "[]" ?read]
  note C = home_codec [of ?ign 0 "[]" 6000 example_reader 0 0 "[]" ?read]
  note D = home_codec [of ?goto 0 "[]" 6000 example_reader 0 0 "[]" ?read]
  have h1: "mode ?inp = Input" by simp
  have h2: "mode default_ChannelSetting \<noteq> Input \<and> homeMode default_ChannelSetting = Off"
    by (simp add: default_ChannelSetting_def)
  have h3: "mode ?ign \<noteq> Input \<and> homeMode ?ign = Ignore"
    by (simp add: default_ChannelSetting_def)
  have h4: "mode ?goto \<noteq> Input \<and> homeMode ?goto = Goto"
    by (simp add: default_ChannelSetting_def)
  have h5: "(2::int) \<le> 6000" by simp
  have h6: "mode ?goto \<noteq> Input \<and> (homeMode ?goto = Goto \<longrightarrow> 2 \<le> home ?goto)"
    by (simp add: default_ChannelSetting_def)
  have h7: "fst (getChannelSetting example_reader 0 0 [] 0 []) = Inr ?read"
    by code_simp
  have c1: "encodeHome ?inp = 1" using A h1 by blast
  have c2: "encodeHome default_ChannelSetting = 0" using B h2 by blast
  have c3: "encodeHome ?ign = 1" using C h3 by blast
  have c4: "encodeHome ?goto = home ?goto" using D h4 by blast
  have c4': "encodeHome ?goto = 6000" using c4 by (simp add: default_ChannelSetting_def)
  have c5: "fst (setRawParameter (specifyServo PARAMETER_SERVO0_HOME (int 0)) (encodeHome ?goto) []) = Inr ()"
    using D c4' by simp
  have c6: "decodeHome 6000 = (Goto, 6000)" using D h5 by blast
  have c7: "decodeHome (encodeHome ?goto) = (Goto, 6000)" using c4' c6 by simp
  have c8: "\<exists>raw. fst (getRawParameter example_reader (specifyServo PARAMETER_SERVO0_HOME (int 0)) []) = Inr raw
          \<and> (homeMode ?read, home ?read) = decodeHome raw"
    using D h7 by blast
  have c8': "\<exists>raw. fst (getRawParameter example_reader (specifyServo PARAMETER_SERVO0_HOME (int 0)) []) = Inr raw
          \<and> (Goto, 6000) = decodeHome raw"
    using c8 by (simp add: default_ChannelSetting_def)
  show ?thesis using h1 c1 c2 c3 c4' c5 h5 c6 c7 h7 c8' by (intro conjI)
qed

subsection \<open>Reconciling the settings\<close>

lemma padChannels_unfold:
  "padChannels usc settings =
     (if length (channelSettings settings) < servoCount usc
      then padChannels usc
             (settings\<lparr>channelSettings := channelSettings settings @
                [padding usc settings (length (channelSettings settings))]\<rparr>)
      else settings)"
  by (subst padChannels.simps) (simp add: padding_def)

lemma padChannels_spec:
  "padChannels usc settings =
     settings\<lparr>channelSettings := channelSettings settings
        @ map (padding usc settings) [length (channelSettings settings)..<servoCount usc]\<rparr>"
proof (induction usc settings rule: padChannels.induct)
  case (1 usc settings)
  show ?case
  proof (cases "length (channelSettings settings) < servoCount usc")
    case False
    then show ?thesis by (subst padChannels_unfold) simp
  next
    case True
    let ?s' = "settings\<lparr>channelSettings := channelSettings settings @
                [padding usc settings (length (channelSettings settings))]\<rparr>"
    have s'_eq: "?s' = settings\<lparr>channelSettings := channelSettings settings @
                [if microMaestro usc \<and> servosAvailable settings \<le> int (length (channelSettings settings))
                 then default_ChannelSetting\<lparr>mode := Input\<rparr>
                 else default_ChannelSetting]\<rparr>"
      by (simp add: padding_def)
    have ih: "padChannels usc ?s' =
        ?s'\<lparr>channelSettings := channelSettings ?s'
           @ map (padding usc ?s') [length (channelSettings ?s')..<servoCount usc]\<rparr>"
      using "1.IH" [OF True] unfolding s'_eq [symmetric] .
    have pad_eq: "padding usc ?s' = padding usc settings"
      by (rule ext) (simp add: padding_def)
    have upt: "[length (channelSettings settings)..<servoCount usc]
        = length (channelSettings settings) # [Suc (length (channelSettings settings))..<servoCount usc]"
      using True by (rule upt_conv_Cons)
    have len': "length (channelSettings ?s') = Suc (length (channelSettings settings))"
      by simp
    have rec: "?s'\<lparr>channelSettings := channelSettings ?s'
           @ map (padding usc settings) [Suc (length (channelSettings settings))..<servoCount usc]\<rparr>
        = settings\<lparr>channelSettings := channelSettings settings
           @ map (padding usc settings)
               (length (channelSettings settings) # [Suc (length (channelSettings settings))..<servoCount usc])\<rparr>"
      by simp
    have "padChannels usc settings = padChannels usc ?s'"
      using True by (subst padChannels_unfold) simp
    also have "\<dots> = ?s'\<lparr>channelSettings := channelSettings ?s'
           @ map (padding usc settings) [Suc (length (channelSettings settings))..<servoCount usc]\<rparr>"
      using ih unfolding pad_eq len' .
    also have "\<dots> = settings\<lparr>channelSettings := channelSettings settings
        @ map (padding usc settings) [length (channelSettings settings)..<servoCount usc]\<rparr>"
      unfolding rec upt [symmetric] ..
    finally show ?thesis .
  qed
qed

lemma fixSettings_short:
  assumes "length (channelSettings settings) < servoCount usc"
  shows "fixSettings usc settings =
     (let settings3 = settings\<lparr>channelSettings := map fixChannel (channelSettings settings
                 @ map (padding usc settings) [length (channelSettings settings)..<servoCount usc])\<rparr>;
          warnings2 = [TooFewChannels (length (channelSettings settings)) (servoCount usc)]
      in if serialDeviceNumber settings \<ge> 128
         then (settings3\<lparr>serialDeviceNumber := 12\<rparr>, warnings2 @ [SerialDeviceNumberChanged])
         else (settings3, warnings2))"
proof -
  have n: "\<not> servoCount usc < length (channelSettings settings)" using assms by simp
  show ?thesis
    unfolding fixSettings_def
    by (simp only: n assms if_True if_False split_conv Let_def padChannels_spec) simp
qed

lemma fixSettings_long:
  assumes "servoCount usc < length (channelSettings settings)"
  shows "fixSettings usc settings =
     (let settings3 = settings\<lparr>channelSettings := map fixChannel
                          (take (servoCount usc) (channelSettings settings))\<rparr>;
          warnings2 = [TooManyChannels (length (channelSettings settings)) (servoCount usc)]
      in if serialDeviceNumber settings \<ge> 128
         then (settings3\<lparr>serialDeviceNumber := 12\<rparr>, warnings2 @ [SerialDeviceNumberChanged])
         else (settings3, warnings2))"
proof -
  let ?s1 = "settings\<lparr>channelSettings := take (servoCount usc) (channelSettings settings)\<rparr>"
  have n: "\<not> length (channelSettings ?s1) < servoCount usc" using assms by simp
  show ?thesis
    unfolding fixSettings_def
    by (simp only: n assms if_True if_False split_conv Let_def) simp
qed

lemma fixSettings_exact:
  assumes "length (channelSettings settings) = servoCount usc"
  shows "fixSettings usc settings =
     (let settings3 = settings\<lparr>channelSettings := map fixChannel (channelSettings settings)\<rparr>
      in if serialDeviceNumber settings \<ge> 128
         then (settings3\<lparr>serialDeviceNumber := 12\<rparr>, [SerialDeviceNumberChanged])
         else (settings3, []))"
proof -
  have n: "\<not> servoCount usc < length (channelSettings settings)"
    "\<not> length (channelSettings settings) < servoCount usc" using assms by simp_all
  show ?thesis
    unfolding fixSettings_def
    by (simp only: n if_True if_False split_conv Let_def) simp
qed

lemma fixSettings_trichotomy:
  obtains (short) "length (channelSettings settings) < servoCount usc"
        | (long) "servoCount usc < length (channelSettings settings)"
        | (exact) "length (channelSettings settings) = servoCount usc"
  by linarith

lemma fixSettings_channels_eq:
  "channelSettings (fst (fixSettings usc settings))
     = map fixChannel (take (servoCount usc) (channelSettings settings)
         @ map (padding usc settings) [length (channelSettings settings)..<servoCount usc])"
proof (cases settings usc rule: fixSettings_trichotomy)
  case short
  then show ?thesis by (simp add: fixSettings_short Let_def)
next
  case long
  then show ?thesis by (simp add: fixSettings_long Let_def)
next
  case exact
  then show ?thesis by (simp add: fixSettings_exact Let_def)
qed

lemma fixSettings_serialDeviceNumber:
  "serialDeviceNumber (fst (fixSettings usc settings))
     = (if 128 \<le> serialDeviceNumber settings then 12 else serialDeviceNumber settings)"
proof (cases settings usc rule: fixSettings_trichotomy)
  case short
  then show ?thesis by (simp add: fixSettings_short Let_def)
next
  case long
  then show ?thesis by (simp add: fixSettings_long Let_def)
next
  case exact
  then show ?thesis by (simp add: fixSettings_exact Let_def)
qed

lemma fixSettings_warnings:
  "snd (fixSettings usc settings)
     = (if servoCount usc < length (channelSettings settings)
        then [TooManyChannels (length (channelSettings settings)) (servoCount usc)] else [])
       @ (if length (channelSettings settings) < servoCount usc
          then [TooFewChannels (length (channelSettings settings)) (servoCount usc)] else [])
       @ (if 128 \<le> serialDeviceNumber settings then [SerialDeviceNumberChanged] else [])"
proof (cases settings usc rule: fixSettings_trichotomy)
  case short
  then show ?thesis by (simp add: fixSettings_short Let_def)
next
  case long
  then show ?thesis by (simp add: fixSettings_long Let_def)
next
  case exact
  then show ?thesis by (simp add: fixSettings_exact Let_def)
qed

text \<open>
  Claim C8 (as amended).  For every settings object \<open>fixSettings\<close> leaves exactly
  \<open>servoCount\<close> channel settings: the first \<open>servoCount\<close> of the given ones, followed when
  there were fewer by default settings (with mode Input on the compact variant for the
  indices from \<open>servosAvailable\<close> on), all then normalised by their mode.  The list of
  warnings is non-empty exactly when channels were dropped or added or the serial device
  number was 128 or more.
\<close>

theorem fixSettings_channel_count:
  "length (channelSettings (fst (fixSettings usc settings))) = servoCount usc
   \<and> channelSettings (fst (fixSettings usc settings))
       = map fixChannel (take (servoCount usc) (channelSettings settings)
           @ map (\<lambda>k. if microMaestro usc \<and> servosAvailable settings \<le> int k
                       then default_ChannelSetting\<lparr>mode := Input\<rparr> else default_ChannelSetting)
                 [length (channelSettings settings)..<servoCount usc])
   \<and> (snd (fixSettings usc settings) \<noteq> []
        \<longleftrightarrow> servoCount usc < length (channelSettings settings)
            \<or> length (channelSettings settings) < servoCount usc
            \<or> 128 \<le> serialDeviceNumber settings)"
proof (intro conjI)
  show "length (channelSettings (fst (fixSettings usc settings))) = servoCount usc"
    by (simp add: fixSettings_channels_eq)
  have "padding usc settings = (\<lambda>k. if microMaestro usc \<and> servosAvailable settings \<le> int k
                       then default_ChannelSetting\<lparr>mode := Input\<rparr> else default_ChannelSetting)"
    by (rule ext) (simp add: padding_def)
  then show "channelSettings (fst (fixSettings usc settings))
       = map fixChannel (take (servoCount usc) (channelSettings settings)
           @ map (\<lambda>k. if microMaestro usc \<and> servosAvailable settings \<le> int k
                       then default_ChannelSetting\<lparr>mode := Input\<rparr> else default_ChannelSetting)
                 [length (channelSettings settings)..<servoCount usc])"
    using fixSettings_channels_eq [of usc settings] by simp
  show "snd (fixSettings usc settings) \<noteq> []
        \<longleftrightarrow> servoCount usc < length (channelSettings settings)
            \<or> length (channelSettings settings) < servoCount usc
            \<or> 128 \<le> serialDeviceNumber settings"
    by (simp add: fixSettings_warnings)
qed

text \<open>
  Six channels on a six-channel device and the serial device number 200: nothing is dropped
  or added, and there is a warning.
\<close>

theorem fixSettings_serial_number_warning:
  "length (channelSettings (example_settings\<lparr>serialDeviceNumber := 200\<rparr>)) = servoCount example_micro
   \<and> snd (fixSettings example_micro (example_settings\<lparr>serialDeviceNumber := 200\<rparr>))
       = [SerialDeviceNumberChanged]
   \<and> serialDeviceNumber (fst (fixSettings example_micro (example_settings\<lparr>serialDeviceNumber := 200\<rparr>))) = 12"
  by (simp add: fixSettings_warnings fixSettings_serialDeviceNumber example_settings_def example_micro_def)

subsection \<open>The status buffer of the compact variant\<close>

lemma calcsize_append: "calcsize (fs @ gs) = calcsize fs + calcsize gs"
  by (simp add: calcsize_def)

lemma calcsize_replicate: "calcsize (replicate n f) = n * fmt_size f"
  by (simp add: calcsize_def sum_list_replicate)

lemma calcsize_Cons: "calcsize (f # fs) = fmt_size f + calcsize fs"
  by (simp add: calcsize_def)

lemma calcsize_Nil: "calcsize [] = 0"
  by (simp add: calcsize_def)

lemma length_unpack_from: "length (unpack_from fs bs) = length fs"
  by (induction fs arbitrary: bs) auto

lemma unpack_from_append:
  "unpack_from (fs @ gs) bs = unpack_from fs bs @ unpack_from gs (drop (calcsize fs) bs)"
  by (induction fs arbitrary: bs) (auto simp: calcsize_Cons calcsize_Nil add.commute)

lemma unpack_from_replicate_nth:
  "k < n \<Longrightarrow> unpack_from (replicate n f) bs ! k = unpack_item f (drop (k * fmt_size f) bs)"
proof (induction n arbitrary: k bs)
  case 0
  then show ?case by simp
next
  case (Suc n)
  show ?case
  proof (cases k)
    case 0
    then show ?thesis by simp
  next
    case (Suc j)
    then have "j < n" using Suc.prems by simp
    then show ?thesis using Suc.IH [of j "drop (fmt_size f) bs"] Suc by (simp add: add.commute)
  qed
qed

lemma unpack_item_take:
  assumes "off + fmt_size f \<le> n"
  shows "unpack_item f (drop off (take n bs)) = unpack_item f (drop off bs)"
proof -
  have "drop off (take n bs) = take (n - off) (drop off bs)" by (simp add: drop_take)
  moreover have "\<And>j xs. j < n - off \<Longrightarrow> take (n - off) xs ! j = (xs :: 8 word list) ! j"
    by simp
  ultimately show ?thesis
    using assms by (cases f) (simp_all add: le16_def)
qed

lemma MicroMaestroVariables_size: "calcsize MicroMaestroVariables_struct = 96"
  by (simp add: MicroMaestroVariables_struct_def calcsize_append calcsize_replicate calcsize_Cons calcsize_Nil)

lemma ServoStatus_size: "calcsize ServoStatus_struct = 7"
  by (simp add: ServoStatus_struct_def calcsize_Cons calcsize_Nil)

lemma unpack_MicroMaestroVariables:
  "unpack_from MicroMaestroVariables_struct bs =
     unpack_from [Fmt_B, Fmt_B, Fmt_H] bs
     @ unpack_from (replicate 3 Fmt_h) (drop 4 bs)
     @ unpack_from (replicate 32 Fmt_h) (drop 10 bs)
     @ unpack_from (replicate 10 Fmt_H) (drop 74 bs)
     @ unpack_from [Fmt_B, Fmt_B] (drop 94 bs)"
proof -
  have c: "calcsize [Fmt_B, Fmt_B, Fmt_H] = 4" by (simp add: calcsize_def)
  show ?thesis
    unfolding MicroMaestroVariables_struct_def unpack_from_append c calcsize_replicate
    by (simp del: unpack_from.simps)
qed

lemma MicroMaestroVariables_init_fields:
  assumes "length var_packed = 96"
  shows "\<exists>v. MicroMaestroVariables_init var_packed = Inr v
     \<and> MicroMaestroVariables.stackPointer v = uint (var_packed ! 0)
     \<and> MicroMaestroVariables.callStackPointer v = uint (var_packed ! 1)
     \<and> MicroMaestroVariables.errors v = le16 (drop 2 var_packed)
     \<and> buffer v = unpack_from (replicate 3 Fmt_h) (drop 4 var_packed)
     \<and> stack v = unpack_from (replicate 32 Fmt_h) (drop 10 var_packed)
     \<and> callStack v = unpack_from (replicate 10 Fmt_H) (drop 74 var_packed)
     \<and> MicroMaestroVariables.scriptDone v = uint (var_packed ! 94)
     \<and> buffer2 v = uint (var_packed ! 95)"
proof -
  let ?u = "unpack_from MicroMaestroVariables_struct var_packed"
  let ?a = "unpack_from [Fmt_B, Fmt_B, Fmt_H] var_packed"
  let ?b = "unpack_from (replicate 3 Fmt_h) (drop 4 var_packed)"
  let ?c = "unpack_from (replicate 32 Fmt_h) (drop 10 var_packed)"
  let ?d = "unpack_from (replicate 10 Fmt_H) (drop 74 var_packed)"
  let ?e = "unpack_from [Fmt_B, Fmt_B] (drop 94 var_packed)"
  have u: "?u = ?a @ ?b @ ?c @ ?d @ ?e" by (rule unpack_MicroMaestroVariables)
  have la: "length ?a = 3" and lb: "length ?b = 3" and lc: "length ?c = 32"
    and ld: "length ?d = 10" and le: "length ?e = 2"
    by (simp_all add: length_unpack_from del: unpack_from.simps)
  have a: "?a = [uint (var_packed ! 0), uint (var_packed ! 1), le16 (drop 2 var_packed)]"
    using assms by (simp add: numeral_2_eq_2)
  have e: "?e = [uint (var_packed ! 94), uint (var_packed ! 95)]"
    using assms by (simp add: add.commute)
  have n0: "?u ! 0 = uint (var_packed ! 0)" and n1: "?u ! 1 = uint (var_packed ! 1)"
    and n2: "?u ! 2 = le16 (drop 2 var_packed)"
    unfolding u a by simp_all
  have s1: "py_slice ?u 3 6 = ?b"
    unfolding u py_slice_def using la lb by simp
  have s2: "py_slice ?u 6 38 = ?c"
    unfolding u py_slice_def using la lb lc by simp
  have s3: "py_slice ?u 38 48 = ?d"
    unfolding u py_slice_def using la lb lc ld by simp
  have "?u ! 48 = ?e ! 0" and "?u ! 49 = ?e ! 1"
    unfolding u using la lb lc ld le by (simp_all add: nth_append)
  then have n48: "?u ! 48 = uint (var_packed ! 94)" and n49: "?u ! 49 = uint (var_packed ! 95)"
    unfolding e by simp_all
  have "MicroMaestroVariables_init var_packed =
      Inr \<lparr>stackPointer = ?u ! 0, callStackPointer = ?u ! 1,
               errors = ?u ! 2, buffer = py_slice ?u 3 6,
               stack = py_slice ?u 6 38, callStack = py_slice ?u 38 48,
               scriptDone = ?u ! 48, buffer2 = ?u ! 49\<rparr>"
    using assms by (simp add: MicroMaestroVariables_init_def struct_unpack_def MicroMaestroVariables_size)
  then show ?thesis
    unfolding n0 n1 n2 s1 s2 s3 n48 n49 by simp
qed


lemma le16_take: "2 \<le> n \<Longrightarrow> le16 (take n bs) = le16 bs"
  by (simp add: le16_def)

lemma ServoStatus_init_fields:
  assumes "length sp = 7"
  shows "ServoStatus_init sp =
     Inr \<lparr>position = le16 sp, target = le16 (drop 2 sp), speed = le16 (drop 4 sp),
          acceleration = uint (sp ! 6)\<rparr>"
proof -
  have u: "unpack_from ServoStatus_struct sp
             = [le16 sp, le16 (drop 2 sp), le16 (drop 4 sp), uint (sp ! 6)]"
    using assms by (simp add: ServoStatus_struct_def)
  show ?thesis
    using assms by (simp add: ServoStatus_init_def struct_unpack_def ServoStatus_size u)
qed

lemma servo_slice:
  assumes "7 * (i + 1) \<le> length sp"
  shows "ServoStatus_init (py_slice sp (i * 7) ((i + 1) * 7)) = Inr (servoAt sp (7 * i))"
proof -
  let ?s = "py_slice sp (i * 7) ((i + 1) * 7)"
  have s: "?s = take 7 (drop (7 * i) sp)" by (simp add: py_slice_def mult.commute)
  have len: "length ?s = 7" using assms unfolding s by simp
  have a: "le16 ?s = le16 (drop (7 * i) sp)" unfolding s by (simp add: le16_take)
  have b: "le16 (drop 2 ?s) = le16 (drop (7 * i + 2) sp)"
    unfolding s by (simp add: drop_take le16_take add.commute)
  have c: "le16 (drop 4 ?s) = le16 (drop (7 * i + 4) sp)"
    unfolding s by (simp add: drop_take le16_take add.commute)
  have d: "?s ! 6 = sp ! (7 * i + 6)"
    unfolding s using assms by simp
  show ?thesis
    unfolding ServoStatus_init_fields [OF len] a b c d by (simp add: servoAt_def)
qed

lemma servoStatuses_ok:
  "(\<forall>i \<in> set js. 7 * (i + 1) \<le> length sp)
     \<Longrightarrow> servoStatuses sp js = Inr (map (\<lambda>i. servoAt sp (7 * i)) js)"
proof (induction js)
  case Nil
  then show ?case by simp
next
  case (Cons i js)
  have fit: "7 * (i + 1) \<le> length sp" using Cons.prems by simp
  have one: "ServoStatus_init (py_slice sp (i * calcsize ServoStatus_struct)
                                          ((i + 1) * calcsize ServoStatus_struct))
               = Inr (servoAt sp (7 * i))"
    unfolding ServoStatus_size by (rule servo_slice [OF fit])
  have rest: "servoStatuses sp js = Inr (map (\<lambda>i. servoAt sp (7 * i)) js)"
    using Cons by simp
  show ?case
    unfolding servoStatuses.simps one rest by simp
qed

lemma servoAt_drop:
  assumes "n + off + 7 \<le> length bs"
  shows "servoAt (drop n bs) off = servoAt bs (n + off)"
  using assms by (simp add: servoAt_def add.assoc add.commute add.left_commute)

lemma getVariableMicroMaestro_layout:
  assumes "packed = reply usc dev (ctrl_transfer 0xC0 REQUEST_GET_VARIABLES 0 0
                      (WLength (int (96 + servoCount usc * 7))))"
    and "length packed = 96 + 7 * servoCount usc"
  shows "\<exists>v. fst (getVariableMicroMaestro usc dev)
            = Inr (v, map (\<lambda>i. servoAt packed (96 + 7 * i)) [0..<servoCount usc])
     \<and> MicroMaestroVariables.stackPointer v = uint (packed ! 0)
     \<and> MicroMaestroVariables.callStackPointer v = uint (packed ! 1)
     \<and> MicroMaestroVariables.errors v = le16 (drop 2 packed)
     \<and> buffer v = unpack_from (replicate 3 Fmt_h) (drop 4 packed)
     \<and> stack v = unpack_from (replicate 32 Fmt_h) (drop 10 packed)
     \<and> callStack v = unpack_from (replicate 10 Fmt_H) (drop 74 packed)
     \<and> MicroMaestroVariables.scriptDone v = uint (packed ! 94)
     \<and> buffer2 v = uint (packed ! 95)"
proof -
  let ?vp = "py_slice packed 0 96"
  let ?sp = "drop 96 packed"
  have vp: "?vp = take 96 packed" by (simp add: py_slice_def)
  have lvp: "length ?vp = 96" using assms(2) by (simp add: py_slice_def)
  from MicroMaestroVariables_init_fields [OF lvp] obtain v where
    v: "MicroMaestroVariables_init ?vp = Inr v"
    and f: "MicroMaestroVariables.stackPointer v = uint (?vp ! 0)"
      "MicroMaestroVariables.callStackPointer v = uint (?vp ! 1)"
      "MicroMaestroVariables.errors v = le16 (drop 2 ?vp)"
      "buffer v = unpack_from (replicate 3 Fmt_h) (drop 4 ?vp)"
      "stack v = unpack_from (replicate 32 Fmt_h) (drop 10 ?vp)"
      "callStack v = unpack_from (replicate 10 Fmt_H) (drop 74 ?vp)"
      "MicroMaestroVariables.scriptDone v = uint (?vp ! 94)"
      "buffer2 v = uint (?vp ! 95)"
    by blast
  have t1: "le16 (drop 2 ?vp) = le16 (drop 2 packed)"
    unfolding vp by (simp add: drop_take le16_take)
  have eq_nth: "\<And>fs (xs :: 8 word list) ys. length fs = n \<Longrightarrow>
      (\<And>k. k < n \<Longrightarrow> unpack_from fs xs ! k = unpack_from fs ys ! k)
      \<Longrightarrow> unpack_from fs xs = unpack_from fs ys" for n
    by (rule nth_equalityI) (simp_all add: length_unpack_from)
  have t2: "unpack_from (replicate 3 Fmt_h) (drop 4 ?vp) = unpack_from (replicate 3 Fmt_h) (drop 4 packed)"
  proof (rule eq_nth [of _ 3])
    fix k :: nat assume k: "k < 3"
    have "unpack_item Fmt_h (drop (4 + k * 2) (take 96 packed)) = unpack_item Fmt_h (drop (4 + k * 2) packed)"
      by (rule unpack_item_take) (use k in simp)
    then show "unpack_from (replicate 3 Fmt_h) (drop 4 ?vp) ! k
             = unpack_from (replicate 3 Fmt_h) (drop 4 packed) ! k"
      using k unfolding vp by (simp add: unpack_from_replicate_nth add.commute del: unpack_item.simps)
  qed simp
  have t3: "unpack_from (replicate 32 Fmt_h) (drop 10 ?vp) = unpack_from (replicate 32 Fmt_h) (drop 10 packed)"
  proof (rule eq_nth [of _ 32])
    fix k :: nat assume k: "k < 32"
    have "unpack_item Fmt_h (drop (10 + k * 2) (take 96 packed)) = unpack_item Fmt_h (drop (10 + k * 2) packed)"
      by (rule unpack_item_take) (use k in simp)
    then show "unpack_from (replicate 32 Fmt_h) (drop 10 ?vp) ! k
             = unpack_from (replicate 32 Fmt_h) (drop 10 packed) ! k"
      using k unfolding vp by (simp add: unpack_from_replicate_nth add.commute del: unpack_item.simps)
  qed simp
  have t4: "unpack_from (replicate 10 Fmt_H) (drop 74 ?vp) = unpack_from (replicate 10 Fmt_H) (drop 74 packed)"
  proof (rule eq_nth [of _ 10])
    fix k :: nat assume k: "k < 10"
    have "unpack_item Fmt_H (drop (74 + k * 2) (take 96 packed)) = unpack_item Fmt_H (drop (74 + k * 2) packed)"
      by (rule unpack_item_take) (use k in simp)
    then show "unpack_from (replicate 10 Fmt_H) (drop 74 ?vp) ! k
             = unpack_from (replicate 10 Fmt_H) (drop 74 packed) ! k"
      using k unfolding vp by (simp add: unpack_from_replicate_nth add.commute del: unpack_item.simps)
  qed simp
  have t5: "?vp ! 0 = packed ! 0" "?vp ! 1 = packed ! 1" "?vp ! 94 = packed ! 94" "?vp ! 95 = packed ! 95"
    unfolding vp by simp_all
  have fit: "\<forall>i \<in> set [0..<servoCount usc]. 7 * (i + 1) \<le> length ?sp"
    using assms(2) by auto
  have sv: "servoStatuses ?sp [0..<servoCount usc]
              = Inr (map (\<lambda>i. servoAt packed (96 + 7 * i)) [0..<servoCount usc])"
  proof -
    have "map (\<lambda>i. servoAt ?sp (7 * i)) [0..<servoCount usc]
            = map (\<lambda>i. servoAt packed (96 + 7 * i)) [0..<servoCount usc]"
    proof (rule map_cong [OF refl])
      fix i assume "i \<in> set [0..<servoCount usc]"
      then have "96 + 7 * i + 7 \<le> length packed" using assms(2) by simp
      then show "servoAt ?sp (7 * i) = servoAt packed (96 + 7 * i)" by (rule servoAt_drop)
    qed
    then show ?thesis using servoStatuses_ok [OF fit] by simp
  qed
  have run: "fst (getVariableMicroMaestro usc dev)
            = Inr (v, map (\<lambda>i. servoAt packed (96 + 7 * i)) [0..<servoCount usc])"
    using v sv assms(1)
    by (simp add: getVariableMicroMaestro_def Let_def MicroMaestroVariables_size ServoStatus_size)
  show ?thesis
    using run f unfolding t1 t2 t3 t4 t5 by blast
qed


text \<open>
  Claim C9 (as amended).  The combined status buffer of the compact variant, of 96 bytes
  plus 7 bytes per channel, decodes as: the stack pointer in byte 0, the call-stack pointer
  in byte 1, the error flags in bytes 2 and 3, three reserved signed 16-bit values in bytes
  4 to 9, the stack of 32 signed 16-bit slots from byte 10, the call stack of 10 unsigned
  16-bit slots from byte 74, the script-done flag in byte 94 and a reserved byte 95; the
  status record of channel \<open>i\<close> follows at byte \<open>96 + 7 * i\<close>, as position, target and
  speed of two bytes each and one byte of acceleration.  All values are little-endian.
\<close>

theorem compact_status_layout:
  "packed = reply usc dev (ctrl_transfer 0xC0 REQUEST_GET_VARIABLES 0 0
                             (WLength (int (96 + servoCount usc * 7))))
     \<and> length packed = 96 + 7 * servoCount usc
   \<longrightarrow> (\<exists>v servos. fst (getVariableMicroMaestro usc dev) = Inr (v, servos)
      \<and> MicroMaestroVariables.stackPointer v = uint (packed ! 0)
      \<and> MicroMaestroVariables.callStackPointer v = uint (packed ! 1)
      \<and> MicroMaestroVariables.errors v = le16 (drop 2 packed)
      \<and> length (buffer v) = 3
      \<and> (\<forall>k<3. buffer v ! k = unpack_item Fmt_h (drop (4 + 2 * k) packed))
      \<and> length (stack v) = 32
      \<and> (\<forall>k<32. stack v ! k = unpack_item Fmt_h (drop (10 + 2 * k) packed))
      \<and> length (callStack v) = 10
      \<and> (\<forall>k<10. callStack v ! k = unpack_item Fmt_H (drop (74 + 2 * k) packed))
      \<and> MicroMaestroVariables.scriptDone v = uint (packed ! 94)
      \<and> buffer2 v = uint (packed ! 95)
      \<and> length servos = servoCount usc
      \<and> (\<forall>i < servoCount usc.
            position (servos ! i) = le16 (drop (96 + 7 * i) packed)
          \<and> target (servos ! i) = le16 (drop (96 + 7 * i + 2) packed)
          \<and> ServoStatus.speed (servos ! i) = le16 (drop (96 + 7 * i + 4) packed)
          \<and> ServoStatus.acceleration (servos ! i) = uint (packed ! (96 + 7 * i + 6))))"
proof
  assume a: "packed = reply usc dev (ctrl_transfer 0xC0 REQUEST_GET_VARIABLES 0 0
                             (WLength (int (96 + servoCount usc * 7))))
     \<and> length packed = 96 + 7 * servoCount usc"
  from a have a1: "packed = reply usc dev (ctrl_transfer 0xC0 REQUEST_GET_VARIABLES 0 0
                             (WLength (int (96 + servoCount usc * 7))))"
    by (rule conjunct1)
  from a have a2: "length packed = 96 + 7 * servoCount usc"
    by (rule conjunct2)
  let ?servos = "map (\<lambda>i. servoAt packed (96 + 7 * i)) [0..<servoCount usc]"
  from getVariableMicroMaestro_layout [OF a1 a2] obtain v where
    run: "fst (getVariableMicroMaestro usc dev) = Inr (v, ?servos)"
    and f: "MicroMaestroVariables.stackPointer v = uint (packed ! 0)"
      "MicroMaestroVariables.callStackPointer v = uint (packed ! 1)"
      "MicroMaestroVariables.errors v = le16 (drop 2 packed)"
      "MicroMaestroVariables.scriptDone v = uint (packed ! 94)"
      "buffer2 v = uint (packed ! 95)"
    and b: "buffer v = unpack_from (replicate 3 Fmt_h) (drop 4 packed)"
    and s: "stack v = unpack_from (replicate 32 Fmt_h) (drop 10 packed)"
    and c: "callStack v = unpack_from (replicate 10 Fmt_H) (drop 74 packed)"
    by blast
  have lb: "length (buffer v) = 3" and ls: "length (stack v) = 32" and lc: "length (callStack v) = 10"
    unfolding b s c by (simp_all add: length_unpack_from)
  have nb: "\<forall>k<3. buffer v ! k = unpack_item Fmt_h (drop (4 + 2 * k) packed)"
    unfolding b by (simp add: unpack_from_replicate_nth add.commute mult.commute del: unpack_item.simps)
  have ns: "\<forall>k<32. stack v ! k = unpack_item Fmt_h (drop (10 + 2 * k) packed)"
    unfolding s by (simp add: unpack_from_replicate_nth add.commute mult.commute del: unpack_item.simps)
  have nc: "\<forall>k<10. callStack v ! k = unpack_item Fmt_H (drop (74 + 2 * k) packed)"
    unfolding c by (simp add: unpack_from_replicate_nth add.commute mult.commute del: unpack_item.simps)
  have lsv: "length ?servos = servoCount usc" by simp
  have nsv: "\<forall>i < servoCount usc.
            position (?servos ! i) = le16 (drop (96 + 7 * i) packed)
          \<and> target (?servos ! i) = le16 (drop (96 + 7 * i + 2) packed)
          \<and> ServoStatus.speed (?servos ! i) = le16 (drop (96 + 7 * i + 4) packed)
          \<and> ServoStatus.acceleration (?servos ! i) = uint (packed ! (96 + 7 * i + 6))"
    by (simp add: servoAt_def)
  show "\<exists>v servos. fst (getVariableMicroMaestro usc dev) = Inr (v, servos)
      \<and> MicroMaestroVariables.stackPointer v = uint (packed ! 0)
      \<and> MicroMaestroVariables.callStackPointer v = uint (packed ! 1)
      \<and> MicroMaestroVariables.errors v = le16 (drop 2 packed)
      \<and> length (buffer v) = 3
      \<and> (\<forall>k<3. buffer v ! k = unpack_item Fmt_h (drop (4 + 2 * k) packed))
      \<and> length (stack v) = 32
      \<and> (\<forall>k<32. stack v ! k = unpack_item Fmt_h (drop (10 + 2 * k) packed))
      \<and> length (callStack v) = 10
      \<and> (\<forall>k<10. callStack v ! k = unpack_item Fmt_H (drop (74 + 2 * k) packed))
      \<and> MicroMaestroVariables.scriptDone v = uint (packed ! 94)
      \<and> buffer2 v = uint (packed ! 95)
      \<and> length servos = servoCount usc
      \<and> (\<forall>i < servoCount usc.
            position (servos ! i) = le16 (drop (96 + 7 * i) packed)
          \<and> target (servos ! i) = le16 (drop (96 + 7 * i + 2) packed)
          \<and> ServoStatus.speed (servos ! i) = le16 (drop (96 + 7 * i + 4) packed)
          \<and> ServoStatus.acceleration (servos ! i) = uint (packed ! (96 + 7 * i + 6)))"
    apply (rule exI [of _ v])
    apply (rule exI [of _ ?servos])
    apply (intro conjI run f lb ls lc nb ns nc lsv nsv)
    done
qed

theorem compact_status_layout_witness:
  "example_buffer = reply example_status [] (ctrl_transfer 0xC0 REQUEST_GET_VARIABLES 0 0
                             (WLength (int (96 + servoCount example_status * 7))))
   \<and> length example_buffer = 96 + 7 * servoCount example_status
   \<and> (\<exists>v servos. fst (getVariableMicroMaestro example_status []) = Inr (v, servos)
      \<and> MicroMaestroVariables.stackPointer v = uint (example_buffer ! 0)
      \<and> MicroMaestroVariables.callStackPointer v = uint (example_buffer ! 1)
      \<and> MicroMaestroVariables.errors v = le16 (drop 2 example_buffer)
      \<and> length (buffer v) = 3
      \<and> (\<forall>k<3. buffer v ! k = unpack_item Fmt_h (drop (4 + 2 * k) example_buffer))
      \<and> length (stack v) = 32
      \<and> (\<forall>k<32. stack v ! k = unpack_item Fmt_h (drop (10 + 2 * k) example_buffer))
      \<and> length (callStack v) = 10
      \<and> (\<forall>k<10. callStack v ! k = unpack_item Fmt_H (drop (74 + 2 * k) example_buffer))
      \<and> MicroMaestroVariables.scriptDone v = uint (example_buffer ! 94)
      \<and> buffer2 v = uint (example_buffer ! 95)
      \<and> length servos = servoCount example_status
      \<and> (\<forall>i < servoCount example_status.
            position (servos ! i) = le16 (drop (96 + 7 * i) example_buffer)
          \<and> target (servos ! i) = le16 (drop (96 + 7 * i + 2) example_buffer)
          \<and> ServoStatus.speed (servos ! i) = le16 (drop (96 + 7 * i + 4) example_buffer)
          \<and> ServoStatus.acceleration (servos ! i) = uint (example_buffer ! (96 + 7 * i + 6))))"
proof -
  have h: "example_buffer = reply example_status [] (ctrl_transfer 0xC0 REQUEST_GET_VARIABLES 0 0
                             (WLength (int (96 + servoCount example_status * 7))))
     \<and> length example_buffer = 96 + 7 * servoCount example_status"
    by (simp add: example_status_def example_buffer_def)
  show ?thesis
    using h compact_status_layout [of example_buffer example_status "[]", THEN mp, OF h]
    by (intro conjI) simp_all
qed

text \<open>
  The format of the code has 96 bytes, a layout with three reserved bytes would have 93.
  On a buffer whose only non-zero byte is byte 7 the code reads the reserved values
  0, 256, 0 and an all-zero stack; with three reserved bytes, byte 7 would be the low byte
  of stack slot 0.
\<close>

theorem compact_status_reserved_words:
  "calcsize MicroMaestroVariables_struct = 96
   \<and> calcsize spec_MicroMaestroVariables_struct = 93
   \<and> map_sum id (buffer \<circ> fst) (fst (getVariableMicroMaestro example_status [])) = Inr [0, 256, 0]
   \<and> map_sum id (stack \<circ> fst) (fst (getVariableMicroMaestro example_status [])) = Inr (replicate 32 0)
   \<and> py_slice (unpack_from spec_MicroMaestroVariables_struct example_buffer) 6 38 = 1 # replicate 31 0"
proof (intro conjI)
  show "calcsize MicroMaestroVariables_struct = 96" by (rule MicroMaestroVariables_size)
  show "calcsize spec_MicroMaestroVariables_struct = 93"
    by (simp add: spec_MicroMaestroVariables_struct_def calcsize_append calcsize_replicate
          calcsize_Cons calcsize_Nil)
  show "map_sum id (buffer \<circ> fst) (fst (getVariableMicroMaestro example_status [])) = Inr [0, 256, 0]"
    by code_simp
  show "map_sum id (stack \<circ> fst) (fst (getVariableMicroMaestro example_status [])) = Inr (replicate 32 0)"
    by code_simp
  show "py_slice (unpack_from spec_MicroMaestroVariables_struct example_buffer) 6 38 = 1 # replicate 31 0"
    by code_simp
qed

subsection \<open>The subroutine address table\<close>



lemma subroutineData_skip:
  assumes "map_of commands nm = Some CALL"
  shows "subroutineData CALL ((nm, v) # rest) commands table
         = subroutineData CALL rest commands table"
  using assms by simp







subsection \<open>Uploading a script\<close>



















subsection \<open>Validation and transfers\<close>






lemma block_is_other: "bRequest (ctrl_transfer t REQUEST_WRITE_SCRIPT v i d) \<noteq> REQUEST_SET_PARAMETER"
  by (simp add: ctrl_transfer_def)









lemma setRawParameters_Inr_length:
  "fst (setRawParameters ps dev) = Inr u \<Longrightarrow>
     length (snd (setRawParameters ps dev)) = length dev + length ps"
proof (induction ps arbitrary: dev)
  case Nil
  then show ?case by simp
next
  case (Cons a ps)
  obtain p v where a: "a = (p, v)" by (cases a)
  obtain r1 dev1 where s: "setRawParameter p v dev = (r1, dev1)" by (cases "setRawParameter p v dev")
  show ?case
  proof (cases r1)
    case (Inl e)
    then show ?thesis using Cons.prems a s by simp
  next
    case (Inr u1)
    from setRawParameter_Inr [OF s [unfolded Inr]] have l: "length dev1 = Suc (length dev)" by auto
    have "fst (setRawParameters ps dev1) = Inr u" using Cons.prems a s Inr by simp
    from Cons.IH [OF this] show ?thesis using a s Inr l by simp
  qed
qed






end
